theory Spec2Isabelle
  imports Complex_Main "HOL-Library.Sublist" "HOL-Library.AList"
begin

section \<open>PureCheck: the analysis pipeline, the upload handler and the chat handler\<close>

text \<open>
  A shallow embedding of \<^verbatim>\<open>src/helper.py\<close> and \<^verbatim>\<open>app.py\<close>. Python strings are
  modelled as \<^typ>\<open>string\<close>; exceptions are values of \<open>pyerror\<close> on the left of a sum.
\<close>

subsection \<open>Strings\<close>

text \<open>
  \<^verbatim>\<open>str.lower\<close> on the ASCII letters. A \<^typ>\<open>char\<close> is one byte, so letters beyond
  ASCII are left as they are.
\<close>

definition lower_char :: "char \<Rightarrow> char" where
  "lower_char c =
     (let n = (of_char c :: nat) in if 65 \<le> n \<and> n \<le> 90 then char_of (n + 32) else c)"

definition lower :: "string \<Rightarrow> string" where
  "lower s = map lower_char s"

text \<open>
  \<^verbatim>\<open>s.rsplit(sep, 1)\<close> for a one-character separator: the string is cut at the last
  occurrence of \<open>sep\<close>; without an occurrence the result is \<open>[s]\<close>.
\<close>

definition rsplit1 :: "char \<Rightarrow> string \<Rightarrow> string list" where
  "rsplit1 sep s =
     (if sep \<in> set s
      then [rev (tl (dropWhile (\<lambda>c. c \<noteq> sep) (rev s))), rev (takeWhile (\<lambda>c. c \<noteq> sep) (rev s))]
      else [s])"

subsection \<open>\<^verbatim>\<open>allowed_file\<close> (helper.py, line 242)\<close>

text \<open>
  \<^verbatim>\<open>return '.' in filename and filename.rsplit('.', 1)[1].lower() in allowed_extensions\<close>.
  The index \<open>[1]\<close> is only evaluated when the name holds a dot, where \<open>rsplit1\<close> returns
  two parts.
\<close>

definition allowed_file :: "string \<Rightarrow> string set \<Rightarrow> bool" where
  "allowed_file filename allowed_extensions =
     (CHR ''.'' \<in> set filename \<and>
      lower (rsplit1 CHR ''.'' filename ! 1) \<in> allowed_extensions)"

text \<open>\<^verbatim>\<open>app.config['ALLOWED_EXTENSIONS']\<close> (app.py, line 23).\<close>

definition ALLOWED_EXTENSIONS :: "string set" where
  "ALLOWED_EXTENSIONS = {''png'', ''jpg'', ''jpeg'', ''gif'', ''webp''}"

subsection \<open>Python values\<close>

text \<open>
  The exceptions the modelled code can raise. \<open>JSONDecodeError\<close> carries \<^verbatim>\<open>str(e)\<close>;
  \<open>RecursionError\<close> is raised by \<^verbatim>\<open>json.loads\<close> on a document nested too deeply;
  \<open>ServiceError\<close> stands for whatever a model, retrieval or file-system call raises.
\<close>

datatype pyerror =
    KeyError string
  | TypeError
  | ValueError
  | OverflowError
  | ZeroDivisionError
  | AttributeError
  | JSONDecodeError string
  | RecursionError
  | ServiceError string

text \<open>
  A Python \<^verbatim>\<open>float\<close>: a finite value, an infinity or a NaN. Finite values are carried
  as exact rationals: the rounding of binary64 arithmetic is not modelled, while the
  cases that decide control flow (zero, sign, overflow of a conversion) are.
\<close>

datatype pyfloat = Fin rat | PosInf | NegInf | NaN

text \<open>What \<^verbatim>\<open>json.loads\<close> can return: the values of a decoded JSON document.\<close>

datatype pyval =
    PNone
  | PBool bool
  | PInt int
  | PFloat pyfloat
  | PStr string
  | PList "pyval list"
  | PDict "(string \<times> pyval) list"

text \<open>A number that is either a Python \<^verbatim>\<open>int\<close> or a \<^verbatim>\<open>float\<close>.\<close>

datatype pynum = IntN int | FloatN pyfloat

subsection \<open>The builtin \<^verbatim>\<open>float()\<close>\<close>

text \<open>
  An \<^verbatim>\<open>int\<close> converts to the nearest binary64 value, and \<^verbatim>\<open>OverflowError\<close> is raised
  when that would be beyond the largest finite one, which is from
  \<open>2^1024 - 2^970\<close> on (half-way between the largest finite value and \<open>2^1024\<close>).
\<close>

definition float_overflow_bound :: int where
  "float_overflow_bound = 2 ^ 1024 - 2 ^ 970"

definition int_to_float :: "int \<Rightarrow> pyerror + pyfloat" where
  "int_to_float n =
     (if float_overflow_bound \<le> \<bar>n\<bar> then Inl OverflowError else Inr (Fin (of_int n)))"

text \<open>
  A decimal string rounds to an infinity from the same bound on, and to zero when it is
  at most \<open>2^-1075\<close> in magnitude (half the smallest subnormal).
\<close>

definition round_decimal :: "rat \<Rightarrow> pyfloat" where
  "round_decimal q =
     (if of_int float_overflow_bound \<le> q then PosInf
      else if q \<le> - of_int float_overflow_bound then NegInf
      else if \<bar>q\<bar> \<le> 1 / 2 ^ 1075 then Fin 0
      else Fin q)"

definition is_digit :: "char \<Rightarrow> bool" where
  "is_digit c = (let n = (of_char c :: nat) in 48 \<le> n \<and> n \<le> 57)"

definition digit_val :: "char \<Rightarrow> nat" where
  "digit_val c = of_char c - 48"

definition nat_of_digits :: "string \<Rightarrow> nat" where
  "nat_of_digits ds = foldl (\<lambda>a c. 10 * a + digit_val c) 0 ds"

text \<open>
  The whitespace \<^verbatim>\<open>float()\<close> removes at both ends of an ASCII string: space, tab,
  newline, vertical tab, form feed, carriage return.
\<close>

definition is_float_space :: "char \<Rightarrow> bool" where
  "is_float_space c = (let n = (of_char c :: nat) in n = 32 \<or> (9 \<le> n \<and> n \<le> 13))"

definition float_strip :: "string \<Rightarrow> string" where
  "float_strip s = rev (dropWhile is_float_space (rev (dropWhile is_float_space s)))"

text \<open>
  \<open>digitpart ::= digit (["_"] digit)*\<close>: the longest such prefix, returned without its
  underscores, and the rest of the string. No leading digit gives no digits.
\<close>

fun digitpart :: "string \<Rightarrow> string \<times> string" where
  "digitpart [] = ([], [])"
| "digitpart (c # cs) =
     (if \<not> is_digit c then ([], c # cs)
      else (case cs of
          u # d # ds \<Rightarrow>
            if u = CHR ''_'' \<and> is_digit d
            then (let (ds', r) = digitpart (d # ds) in (c # ds', r))
            else (let (ds', r) = digitpart cs in (c # ds', r))
        | _ \<Rightarrow> (let (ds', r) = digitpart cs in (c # ds', r))))"

definition scale10 :: "rat \<Rightarrow> int \<Rightarrow> rat" where
  "scale10 q k = (if 0 \<le> k then q * 10 ^ nat k else q / 10 ^ nat (- k))"

text \<open>
  \<open>number ::= [digitpart] "." digitpart | digitpart ["."]\<close>, then an optional
  \<open>("e" | "E") ["+" | "-"] digitpart\<close>; the whole string must be consumed.
\<close>

definition decimal :: "string \<Rightarrow> rat option" where
  "decimal u =
     (let (ip, r1) = digitpart u;
          (fp, r2) = (case r1 of
                        [] \<Rightarrow> ([], [])
                      | c # r \<Rightarrow> if c = CHR ''.'' then digitpart r else ([], r1));
          m = of_nat (nat_of_digits (ip @ fp))
      in if ip = [] \<and> fp = [] then None
         else (case r2 of
                 [] \<Rightarrow> Some (scale10 m (- int (length fp)))
               | e # r3 \<Rightarrow>
                   if e = CHR ''e'' \<or> e = CHR ''E'' then
                     (let (eneg, r4) = (case r3 of
                                          [] \<Rightarrow> (False, [])
                                        | c # r \<Rightarrow> if c = CHR ''-'' then (True, r)
                                                   else if c = CHR ''+'' then (False, r)
                                                   else (False, r3));
                          (ed, r5) = digitpart r4;
                          x = int (nat_of_digits ed)
                      in if ed = [] \<or> r5 \<noteq> [] then None
                         else Some (scale10 m ((if eneg then - x else x) - int (length fp))))
                   else None))"

text \<open>
  \<^verbatim>\<open>float(s)\<close> for a string: surrounding whitespace is dropped, a sign is read, then
  either \<open>inf\<close>, \<open>infinity\<close> or \<open>nan\<close> in any letter case, or a decimal number.
  \<open>None\<close> is \<^verbatim>\<open>ValueError\<close>. Strings are read as ASCII: a byte beyond ASCII is
  neither a digit nor whitespace here.
\<close>

definition float_of_str :: "string \<Rightarrow> pyfloat option" where
  "float_of_str s =
     (let t = float_strip s;
          (neg, u) = (case t of
                        [] \<Rightarrow> (False, [])
                      | c # r \<Rightarrow> if c = CHR ''-'' then (True, r)
                                 else if c = CHR ''+'' then (False, r)
                                 else (False, t));
          lu = lower u
      in if lu = ''inf'' \<or> lu = ''infinity'' then Some (if neg then NegInf else PosInf)
         else if lu = ''nan'' then Some NaN
         else (case decimal u of
                 None \<Rightarrow> None
               | Some q \<Rightarrow> Some (round_decimal (if neg then - q else q))))"

fun py_float :: "pyval \<Rightarrow> pyerror + pyfloat" where
  "py_float PNone = Inl TypeError"
| "py_float (PBool b) = Inr (Fin (if b then 1 else 0))"
| "py_float (PInt n) = int_to_float n"
| "py_float (PFloat f) = Inr f"
| "py_float (PStr s) = (case float_of_str s of None \<Rightarrow> Inl ValueError | Some f \<Rightarrow> Inr f)"
| "py_float (PList xs) = Inl TypeError"
| "py_float (PDict kvs) = Inl TypeError"

text \<open>Truth value of a float: every value but zero, NaN included.\<close>

fun float_truthy :: "pyfloat \<Rightarrow> bool" where
  "float_truthy (Fin q) = (q \<noteq> 0)"
| "float_truthy _ = True"

fun num_truthy :: "pynum \<Rightarrow> bool" where
  "num_truthy (IntN n) = (n \<noteq> 0)"
| "num_truthy (FloatN f) = float_truthy f"

text \<open>
  \<^verbatim>\<open>f / b\<close> for a float and an int: the int is converted first (\<^verbatim>\<open>OverflowError\<close>), a
  zero divisor raises \<^verbatim>\<open>ZeroDivisionError\<close>.
\<close>

fun float_over :: "pyfloat \<Rightarrow> int \<Rightarrow> pyfloat" where
  "float_over (Fin q) b = Fin (q / of_int b)"
| "float_over PosInf b = (if 0 < b then PosInf else NegInf)"
| "float_over NegInf b = (if 0 < b then NegInf else PosInf)"
| "float_over NaN b = NaN"

definition float_div_int :: "pyfloat \<Rightarrow> int \<Rightarrow> pyerror + pyfloat" where
  "float_div_int f b =
     (if float_overflow_bound \<le> \<bar>b\<bar> then Inl OverflowError
      else if b = 0 then Inl ZeroDivisionError
      else Inr (float_over f b))"

text \<open>\<^verbatim>\<open>f * 100\<close>.\<close>

fun float_times_100 :: "pyfloat \<Rightarrow> pyfloat" where
  "float_times_100 (Fin q) = Fin (q * 100)"
| "float_times_100 f = f"

subsection \<open>\<^verbatim>\<open>calculate_nutrient_analysis\<close> (helper.py, line 341)\<close>

record nutrient_entry =
  per_100g :: pynum
  inr_baseline :: int
  percent_of_inr :: pynum

text \<open>
  The result dict, in insertion order. \<^verbatim>\<open>analysis[k] = v\<close> is \<^const>\<open>AList.update\<close>
  (replace in place, or append); a lookup is \<^const>\<open>map_of\<close>.
\<close>

type_synonym analysis = "(string \<times> nutrient_entry) list"

text \<open>\<^verbatim>\<open>FSSAI_INR_BASELINE\<close> (app.py, line 37).\<close>

definition FSSAI_INR_BASELINE :: "string \<rightharpoonup> int" where
  "FSSAI_INR_BASELINE = map_of
     [(''energy_kcal'', 2000), (''total_fat_g'', 65), (''saturated_fat_g'', 20),
      (''carbohydrates_g'', 300), (''sugars_g'', 50), (''added_sugars_g'', 30),
      (''protein_g'', 50), (''sodium_mg'', 2000), (''fiber_g'', 25)]"

definition nutrients :: "string list" where
  "nutrients = [''energy_kcal'', ''sugars_g'', ''saturated_fat_g'', ''sodium_mg'', ''protein_g'']"

text \<open>
  Lines 356 to 364: \<^verbatim>\<open>product_nutrition.get(nutrient, 0)\<close>, the three markers, and
  \<^verbatim>\<open>float(value)\<close> under \<^verbatim>\<open>except (ValueError, TypeError)\<close>. Any other exception of
  \<^verbatim>\<open>float\<close> leaves the function.
\<close>

definition coerce_value :: "pyval option \<Rightarrow> pyerror + pynum" where
  "coerce_value got =
     (let value = (case got of None \<Rightarrow> PInt 0 | Some v \<Rightarrow> v)
      in if value = PStr ''Not Available'' \<or> value = PNone \<or> value = PStr ''N/A''
         then Inr (IntN 0)
         else (case py_float value of
                 Inr f \<Rightarrow> Inr (FloatN f)
               | Inl e \<Rightarrow> if e = ValueError \<or> e = TypeError then Inr (IntN 0) else Inl e))"

text \<open>
  Line 376: \<^verbatim>\<open>(value / baseline * 100) if value and baseline else 0\<close>. The test is
  Python truth: a non-zero value and a non-zero baseline. (An int divided by an int is
  the correctly rounded quotient; the only int \<open>value\<close> the function produces is 0.)
\<close>

definition percent_of :: "pynum \<Rightarrow> int \<Rightarrow> pyerror + pynum" where
  "percent_of value baseline =
     (if num_truthy value \<and> baseline \<noteq> 0
      then (case value of
              FloatN f \<Rightarrow> (case float_div_int f baseline of
                              Inl e \<Rightarrow> Inl e
                            | Inr d \<Rightarrow> Inr (FloatN (float_times_100 d)))
            | IntN n \<Rightarrow> (let q = (of_int n / of_int baseline :: rat)
                         in if of_int float_overflow_bound \<le> \<bar>q\<bar> then Inl OverflowError
                            else Inr (FloatN (float_times_100 (Fin q)))))
      else Inr (IntN 0))"

text \<open>One round of the loop of line 355: the entry stored under \<open>nutrient\<close>.\<close>

definition mandatory_entry ::
  "(string \<times> pyval) list \<Rightarrow> (string \<rightharpoonup> int) \<Rightarrow> string \<Rightarrow> pyerror + nutrient_entry" where
  "mandatory_entry product_nutrition fssai_inr_baseline nutrient =
     (case coerce_value (map_of product_nutrition nutrient) of
        Inl e \<Rightarrow> Inl e
      | Inr value \<Rightarrow>
          (let baseline = (case fssai_inr_baseline nutrient of None \<Rightarrow> 1 | Some b \<Rightarrow> b)
           in case percent_of value baseline of
                Inl e \<Rightarrow> Inl e
              | Inr p \<Rightarrow> Inr \<lparr>per_100g = value, inr_baseline = baseline, percent_of_inr = p\<rparr>))"

fun analysis_loop ::
  "(string \<times> pyval) list \<Rightarrow> (string \<rightharpoonup> int) \<Rightarrow> string list \<Rightarrow> analysis \<Rightarrow> pyerror + analysis" where
  "analysis_loop product_nutrition fssai_inr_baseline [] a = Inr a"
| "analysis_loop product_nutrition fssai_inr_baseline (nutrient # rest) a =
     (case mandatory_entry product_nutrition fssai_inr_baseline nutrient of
        Inl e \<Rightarrow> Inl e
      | Inr entry \<Rightarrow>
          analysis_loop product_nutrition fssai_inr_baseline rest (AList.update nutrient entry a))"

text \<open>
  Lines 380 to 390. \<^verbatim>\<open>float(fiber)\<close>, the lookup \<^verbatim>\<open>fssai_inr_baseline['fiber_g']\<close> and
  the division all sit inside the \<^verbatim>\<open>try\<close>, which catches \<^verbatim>\<open>ValueError\<close> and
  \<^verbatim>\<open>TypeError\<close> only.
\<close>

definition add_fiber ::
  "(string \<times> pyval) list \<Rightarrow> (string \<rightharpoonup> int) \<Rightarrow> analysis \<Rightarrow> pyerror + analysis" where
  "add_fiber product_nutrition fssai_inr_baseline a =
     (case map_of product_nutrition ''fiber_g'' of
        None \<Rightarrow> Inr a
      | Some fiber \<Rightarrow>
          if fiber \<noteq> PStr ''Not Available'' \<and> fiber \<noteq> PNone \<and> fiber \<noteq> PStr ''N/A'' then
            (case py_float fiber of
               Inl e \<Rightarrow> if e = ValueError \<or> e = TypeError then Inr a else Inl e
             | Inr f \<Rightarrow>
                 (case fssai_inr_baseline ''fiber_g'' of
                    None \<Rightarrow> Inl (KeyError ''fiber_g'')
                  | Some b \<Rightarrow>
                      (case float_div_int f b of
                         Inl e \<Rightarrow> Inl e
                       | Inr d \<Rightarrow>
                           Inr (AList.update ''fiber_g''
                                  \<lparr>per_100g = FloatN f, inr_baseline = b,
                                   percent_of_inr = FloatN (float_times_100 d)\<rparr> a))))
          else Inr a)"

definition calculate_nutrient_analysis ::
  "(string \<times> pyval) list \<Rightarrow> (string \<rightharpoonup> int) \<Rightarrow> pyerror + analysis" where
  "calculate_nutrient_analysis product_nutrition fssai_inr_baseline =
     (case analysis_loop product_nutrition fssai_inr_baseline nutrients [] of
        Inl e \<Rightarrow> Inl e
      | Inr a \<Rightarrow> add_fiber product_nutrition fssai_inr_baseline a)"

subsection \<open>Sequencing with exceptions, and access to decoded JSON\<close>

text \<open>Run \<open>f\<close> on the value of \<open>r\<close>, unless \<open>r\<close> raised.\<close>

definition and_then :: "'e + 'a \<Rightarrow> ('a \<Rightarrow> 'e + 'b) \<Rightarrow> 'e + 'b" where
  "and_then r f = (case r of Inl e \<Rightarrow> Inl e | Inr x \<Rightarrow> f x)"

text \<open>Evaluate \<open>f\<close> on each element from left to right; the first exception ends it.\<close>

fun each_in_order :: "('a \<Rightarrow> 'e + 'b) \<Rightarrow> 'a list \<Rightarrow> 'e + 'b list" where
  "each_in_order f [] = Inr []"
| "each_in_order f (x # xs) =
     and_then (f x) (\<lambda>y. and_then (each_in_order f xs) (\<lambda>ys. Inr (y # ys)))"

text \<open>
  \<^verbatim>\<open>v[key]\<close> and \<^verbatim>\<open>v.get(key, default)\<close> for a string key. A decoded JSON object has
  each key once, so \<^const>\<open>map_of\<close> reads it. Only a dict can be indexed by a string,
  and only a dict has \<^verbatim>\<open>get\<close>.
\<close>

fun py_getitem :: "pyval \<Rightarrow> string \<Rightarrow> pyerror + pyval" where
  "py_getitem (PDict kvs) k = (case map_of kvs k of None \<Rightarrow> Inl (KeyError k) | Some v \<Rightarrow> Inr v)"
| "py_getitem _ k = Inl TypeError"

fun py_get :: "pyval \<Rightarrow> string \<Rightarrow> pyval \<Rightarrow> pyerror + pyval" where
  "py_get (PDict kvs) k d = Inr (case map_of kvs k of None \<Rightarrow> d | Some v \<Rightarrow> v)"
| "py_get _ k d = Inl AttributeError"

text \<open>
  The values formatted into an f-string, in the order of their fields: \<^verbatim>\<open>{x}\<close> for a
  decoded value or an int, \<^verbatim>\<open>{x:.1f}\<close> for a number, and a string put in as it is.
  The fixed text between the fields is not part of the model.
\<close>

datatype hole = Plain pyval | PlainInt int | OneDecimal pynum | Text string

text \<open>
  \<^verbatim>\<open>format(x, '.1f')\<close>: an int is converted to a float first, a string has no format
  code \<open>f\<close> (\<^verbatim>\<open>ValueError\<close>), the other values accept no format string
  (\<^verbatim>\<open>TypeError\<close>).
\<close>

fun format_1f_num :: "pynum \<Rightarrow> pyerror + hole" where
  "format_1f_num (IntN n) =
     (if float_overflow_bound \<le> \<bar>n\<bar> then Inl OverflowError else Inr (OneDecimal (IntN n)))"
| "format_1f_num (FloatN f) = Inr (OneDecimal (FloatN f))"

fun format_1f :: "pyval \<Rightarrow> pyerror + hole" where
  "format_1f (PInt n) = format_1f_num (IntN n)"
| "format_1f (PBool b) = Inr (OneDecimal (IntN (if b then 1 else 0)))"
| "format_1f (PFloat f) = format_1f_num (FloatN f)"
| "format_1f (PStr s) = Inl ValueError"
| "format_1f PNone = Inl TypeError"
| "format_1f (PList xs) = Inl TypeError"
| "format_1f (PDict kvs) = Inl TypeError"

fun join_with :: "string \<Rightarrow> string list \<Rightarrow> string" where
  "join_with sep [] = []"
| "join_with sep [x] = x"
| "join_with sep (x # y # ys) = x @ sep @ join_with sep (y # ys)"

text \<open>
  \<^verbatim>\<open>', '.join(v)\<close>: a list joins when each of its elements is a string, a string joins
  its characters, a dict joins its keys; nothing else can be iterated.
\<close>

fun the_strings :: "pyval list \<Rightarrow> string list option" where
  "the_strings [] = Some []"
| "the_strings (PStr s # vs) = map_option ((#) s) (the_strings vs)"
| "the_strings (v # vs) = None"

fun py_join :: "pyval \<Rightarrow> pyerror + string" where
  "py_join (PList vs) =
     (case the_strings vs of None \<Rightarrow> Inl TypeError | Some ss \<Rightarrow> Inr (join_with '', '' ss))"
| "py_join (PStr s) = Inr (join_with '', '' (map (\<lambda>c. [c]) s))"
| "py_join (PDict kvs) = Inr (join_with '', '' (map fst kvs))"
| "py_join v = Inl TypeError"

subsection \<open>Text search and slicing\<close>

text \<open>\<^verbatim>\<open>s.find(sub, start)\<close>: the least index from \<open>start\<close> on where \<open>sub\<close> begins, or -1.\<close>

fun find_at :: "string \<Rightarrow> string \<Rightarrow> nat \<Rightarrow> int" where
  "find_at sub [] i = (if sub = [] then int i else - 1)"
| "find_at sub (c # cs) i = (if prefix sub (c # cs) then int i else find_at sub cs (Suc i))"

definition py_find :: "string \<Rightarrow> string \<Rightarrow> nat \<Rightarrow> int" where
  "py_find s sub start = (if length s < start then - 1 else find_at sub (drop start s) start)"

text \<open>\<^verbatim>\<open>s[i:j]\<close>: a negative bound counts from the end, and both are clipped to the string.\<close>

definition slice_index :: "nat \<Rightarrow> int \<Rightarrow> nat" where
  "slice_index n i = (if i < 0 then nat (max 0 (int n + i)) else min n (nat i))"

definition py_slice :: "string \<Rightarrow> int \<Rightarrow> int \<Rightarrow> string" where
  "py_slice s i j =
     (let a = slice_index (length s) i; b = slice_index (length s) j in take (b - a) (drop a s))"

text \<open>\<^verbatim>\<open>str.strip()\<close>; the ASCII characters with \<^verbatim>\<open>isspace()\<close> are 9 to 13, 28 to 32.\<close>

definition is_space :: "char \<Rightarrow> bool" where
  "is_space c = (let n = (of_char c :: nat) in (9 \<le> n \<and> n \<le> 13) \<or> (28 \<le> n \<and> n \<le> 32))"

definition py_strip :: "string \<Rightarrow> string" where
  "py_strip s = rev (dropWhile is_space (rev (dropWhile is_space s)))"

subsection \<open>The collaborators\<close>

text \<open>
  The services and library functions the code calls and this model does not look into.
  An \<open>Inl\<close> is an exception raised by the call.
  \<^item> \<open>vision_model key path\<close>: reading the image, the GPT-4o request of line 116, and
    \<^verbatim>\<open>response.choices[0].message.content\<close>;
  \<^item> \<open>json_loads\<close>: \<^verbatim>\<open>json.loads\<close>, which raises \<open>JSONDecodeError msg\<close> on text that is
    not a JSON document, and can raise other exceptions: \<open>RecursionError\<close> on deep
    nesting, \<open>ValueError\<close> on an integer of more digits than the interpreter converts;
  \<^item> \<open>reasoning_model\<close>: the o3-mini request of line 325 and the content of its reply;
  \<^item> \<open>save_upload\<close>: lines 130 to 134 of app.py, giving the file path and the stamped name;
  \<^item> \<open>rag_chain\<close>: \<^verbatim>\<open>rag_chain.invoke({"input": msg})["answer"]\<close>;
  \<^item> \<open>chat_model\<close>: \<^verbatim>\<open>chatModel.invoke(prompt).content\<close>.
\<close>

record services =
  vision_model :: "string \<Rightarrow> string \<Rightarrow> pyerror + string"
  json_loads :: "string \<Rightarrow> pyerror + pyval"
  reasoning_model :: "hole list \<Rightarrow> pyerror + string"
  save_upload :: "string \<Rightarrow> pyerror + string \<times> string"
  rag_chain :: "string \<Rightarrow> pyerror + string"
  chat_model :: "hole list \<Rightarrow> pyerror + string"

text \<open>
  The calls a run makes, in order: \<open>Extraction\<close> is a call of
  \<^verbatim>\<open>extract_nutrition_info_gpt4o\<close>, \<open>Normalization\<close> one of
  \<^verbatim>\<open>calculate_nutrient_analysis\<close>, \<open>Rating\<close> one of \<^verbatim>\<open>calculate_inr_score\<close>,
  \<open>Retrieval\<close> one of \<^verbatim>\<open>rag_chain.invoke\<close> and \<open>Generation\<close> one of
  \<^verbatim>\<open>chatModel.invoke\<close>. A function that makes calls takes the list of calls so far
  and returns the extended list.
\<close>

datatype call =
    Extraction string
  | Normalization
  | Rating
  | Retrieval string
  | Generation "hole list"

subsection \<open>\<^verbatim>\<open>extract_nutrition_info_gpt4o\<close> (helper.py, line 60)\<close>

text \<open>Lines 129 to 138: the text handed to \<^verbatim>\<open>json.loads\<close>.\<close>

definition json_payload :: "string \<Rightarrow> string" where
  "json_payload result_text =
     (if py_find result_text ''```json'' 0 \<noteq> - 1 then
        (let json_start = py_find result_text ''```json'' 0 + 7;
             json_end = py_find result_text ''```'' (nat json_start)
         in py_strip (py_slice result_text json_start json_end))
      else if py_find result_text ''```'' 0 \<noteq> - 1 then
        (let json_start = py_find result_text ''```'' 0 + 3;
             json_end = py_find result_text ''```'' (nat json_start)
         in py_strip (py_slice result_text json_start json_end))
      else result_text)"

text \<open>
  The returned dict: \<^verbatim>\<open>{"success": True, "data", "raw_response"}\<close> or
  \<^verbatim>\<open>{"success": False, "error", "raw_response"}\<close>.
\<close>

datatype extraction_result =
    ExtractionOk pyval string
  | ExtractionFailed string string

text \<open>
  \<open>api_key\<close> is the argument, \<open>env_key\<close> the environment variable
  \<^verbatim>\<open>NETAICONNECT_API_KEY\<close>. The model call is outside the \<^verbatim>\<open>try\<close>. Of the
  exceptions of \<^verbatim>\<open>json.loads\<close> only \<^verbatim>\<open>json.JSONDecodeError\<close> is caught (line 146); any
  other leaves the function.
\<close>

definition extract_nutrition_info_gpt4o ::
  "services \<Rightarrow> string option \<Rightarrow> string option \<Rightarrow> string \<Rightarrow> pyerror + extraction_result" where
  "extract_nutrition_info_gpt4o sv api_key env_key image_path =
     and_then
       (case api_key of
          Some k \<Rightarrow> Inr k
        | None \<Rightarrow> (case env_key of
                     None \<Rightarrow> Inl ValueError
                   | Some k \<Rightarrow> if k = [] then Inl ValueError else Inr k))
       (\<lambda>key. and_then (vision_model sv key image_path)
          (\<lambda>result_text.
             case json_loads sv (json_payload result_text) of
               Inr nutrition_data \<Rightarrow> Inr (ExtractionOk nutrition_data result_text)
             | Inl (JSONDecodeError msg) \<Rightarrow>
                 Inr (ExtractionFailed (''Failed to parse JSON: '' @ msg) result_text)
             | Inl e \<Rightarrow> Inl e))"

subsection \<open>\<^verbatim>\<open>calculate_inr_score\<close> (helper.py, line 256)\<close>

text \<open>
  The prompt of line 272. Its fields are evaluated in order, and a missing key raises
  before the model is called.
\<close>

definition rating_prompt ::
  "pyval \<Rightarrow> analysis \<Rightarrow> (string \<rightharpoonup> int) \<Rightarrow> pyerror + hole list" where
  "rating_prompt product_data an fssai_inr_baseline =
     and_then (py_get product_data ''product_type'' (PStr ''Solid'')) (\<lambda>ptype.
     and_then (py_getitem product_data ''nutritional_info_per_100g'') (\<lambda>info.
     and_then (each_in_order (py_getitem info) nutrients) (\<lambda>vals.
     and_then (py_get info ''fiber_g'' (PStr ''Not Available'')) (\<lambda>fiber.
     and_then (each_in_order
                 (\<lambda>k. case fssai_inr_baseline k of None \<Rightarrow> Inl (KeyError k) | Some b \<Rightarrow> Inr b)
                 (nutrients @ [''fiber_g''])) (\<lambda>baselines.
     and_then (each_in_order
                 (\<lambda>k. case map_of an k of
                         None \<Rightarrow> Inl (KeyError k)
                       | Some entry \<Rightarrow> format_1f_num (percent_of_inr entry))
                 nutrients) (\<lambda>percents.
     Inr (Plain ptype # map Plain vals @ [Plain fiber] @ map PlainInt baselines @ percents)))))))"

text \<open>
  Line 334: \<^verbatim>\<open>re.search(r'\{[\s\S]*\}', response_text)\<close>. The star is greedy, so the
  match runs from the first opening brace to the last closing brace after it.
\<close>

definition json_match :: "string \<Rightarrow> string option" where
  "json_match response_text =
     (let t = dropWhile (\<lambda>c. c \<noteq> CHR ''{'') response_text
      in if t = [] then None
         else (let r = dropWhile (\<lambda>c. c \<noteq> CHR ''}'') (rev (tl t))
               in if r = [] then None else Some (CHR ''{'' # rev r)))"

text \<open>
  The result is the decoded value, or \<open>PNone\<close> for \<^verbatim>\<open>return None\<close>. Nothing here is
  inside a \<^verbatim>\<open>try\<close>.
\<close>

definition calculate_inr_score ::
  "services \<Rightarrow> pyval \<Rightarrow> analysis \<Rightarrow> (string \<rightharpoonup> int) \<Rightarrow> pyerror + pyval" where
  "calculate_inr_score sv product_data an fssai_inr_baseline =
     and_then (rating_prompt product_data an fssai_inr_baseline) (\<lambda>reasoning_prompt.
     and_then (reasoning_model sv reasoning_prompt) (\<lambda>response_text.
       case json_match response_text of
         None \<Rightarrow> Inr PNone
       | Some m \<Rightarrow> json_loads sv m))"

subsection \<open>\<^verbatim>\<open>create_nutrition_analysis_chain\<close> (helper.py, line 395)\<close>

text \<open>
  The dicts handed from step to step:
  \<^item> \<open>StepFailure error details image_path\<close> is
    \<^verbatim>\<open>{'success': False, 'error', 'details', 'image_path'}\<close>, with \<open>details = None\<close> when
    the dict has no such key;
  \<^item> \<open>Extracted image_path product_data\<close>, \<open>Analysed image_path product_data analysis\<close> and
    \<open>Rated image_path product_data analysis inr_result\<close> are the dicts with
    \<^verbatim>\<open>'success': True\<close>.
\<close>

datatype chain_value =
    StepFailure string "string option" string
  | Extracted string pyval
  | Analysed string pyval analysis
  | Rated string pyval analysis pyval

definition extract_nutrition_step ::
  "services \<Rightarrow> string option \<Rightarrow> string option \<Rightarrow> string \<Rightarrow> call list \<Rightarrow>
     (pyerror + chain_value) \<times> call list" where
  "extract_nutrition_step sv api_key env_key image_path calls =
     (case extract_nutrition_info_gpt4o sv api_key env_key image_path of
        Inl e \<Rightarrow> (Inl e, calls @ [Extraction image_path])
      | Inr (ExtractionFailed error raw_response) \<Rightarrow>
          (Inr (StepFailure ''Nutrition extraction failed'' (Some error) image_path),
           calls @ [Extraction image_path])
      | Inr (ExtractionOk nutrition_data raw_response) \<Rightarrow>
          (Inr (Extracted image_path nutrition_data), calls @ [Extraction image_path]))"

text \<open>
  \<^verbatim>\<open>calculate_nutrient_analysis\<close> starts with \<^verbatim>\<open>product_nutrition.get\<close>, which only a
  dict has.
\<close>

definition normalize :: "pyval \<Rightarrow> (string \<rightharpoonup> int) \<Rightarrow> pyerror + analysis" where
  "normalize product_nutrition fssai_inr_baseline =
     (case product_nutrition of
        PDict kvs \<Rightarrow> calculate_nutrient_analysis kvs fssai_inr_baseline
      | _ \<Rightarrow> Inl AttributeError)"

fun calculate_analysis_step ::
  "(string \<rightharpoonup> int) \<Rightarrow> chain_value \<Rightarrow> call list \<Rightarrow> (pyerror + chain_value) \<times> call list" where
  "calculate_analysis_step fssai_inr_baseline (StepFailure error details image_path) calls =
     (Inr (StepFailure error details image_path), calls)"
| "calculate_analysis_step fssai_inr_baseline inputs calls =
     (let (image_path, product_data) =
            (case inputs of
               Extracted p d \<Rightarrow> (p, d) | Analysed p d a \<Rightarrow> (p, d) | Rated p d a r \<Rightarrow> (p, d))
      in case py_getitem product_data ''nutritional_info_per_100g'' of
           Inl e \<Rightarrow> (Inl e, calls)
         | Inr product_nutrition \<Rightarrow>
             (case normalize product_nutrition fssai_inr_baseline of
                Inl e \<Rightarrow> (Inl e, calls @ [Normalization])
              | Inr an \<Rightarrow> (Inr (Analysed image_path product_data an), calls @ [Normalization])))"

fun calculate_inr_step ::
  "services \<Rightarrow> (string \<rightharpoonup> int) \<Rightarrow> chain_value \<Rightarrow> call list \<Rightarrow>
     (pyerror + chain_value) \<times> call list" where
  "calculate_inr_step sv fssai_inr_baseline (StepFailure error details image_path) calls =
     (Inr (StepFailure error details image_path), calls)"
| "calculate_inr_step sv fssai_inr_baseline (Extracted image_path product_data) calls =
     (Inl (KeyError ''analysis''), calls)"
| "calculate_inr_step sv fssai_inr_baseline inputs calls =
     (let (image_path, product_data, an) =
            (case inputs of Analysed p d a \<Rightarrow> (p, d, a) | Rated p d a r \<Rightarrow> (p, d, a))
      in case calculate_inr_score sv product_data an fssai_inr_baseline of
           Inl e \<Rightarrow> (Inl e, calls @ [Rating])
         | Inr inr_result \<Rightarrow>
             if inr_result = PNone
             then (Inr (StepFailure ''INR score calculation failed'' None image_path),
                   calls @ [Rating])
             else (Inr (Rated image_path product_data an inr_result), calls @ [Rating]))"

text \<open>Line 487: the three steps in sequence; an exception of a step ends the run.\<close>

definition nutrition_analysis_chain ::
  "services \<Rightarrow> string option \<Rightarrow> string option \<Rightarrow> (string \<rightharpoonup> int) \<Rightarrow> string \<Rightarrow> call list \<Rightarrow>
     (pyerror + chain_value) \<times> call list" where
  "nutrition_analysis_chain sv api_key env_key fssai_inr_baseline image_path calls =
     (case extract_nutrition_step sv api_key env_key image_path calls of
        (Inl e, calls1) \<Rightarrow> (Inl e, calls1)
      | (Inr v1, calls1) \<Rightarrow>
          (case calculate_analysis_step fssai_inr_baseline v1 calls1 of
             (Inl e, calls2) \<Rightarrow> (Inl e, calls2)
           | (Inr v2, calls2) \<Rightarrow> calculate_inr_step sv fssai_inr_baseline v2 calls2))"

subsection \<open>The upload handler (app.py, line 115)\<close>

text \<open>What \<^verbatim>\<open>session['current_product']\<close> holds; the session is \<open>None\<close> without the key.\<close>

record current_product =
  product_data :: pyval
  analysis :: analysis
  inr_result :: pyval
  image_path :: string

text \<open>
  The JSON bodies of \<^verbatim>\<open>/upload\<close>: \<open>UploadError msg\<close> is \<^verbatim>\<open>{'error': msg}\<close>,
  \<open>UploadRaised e\<close> is \<^verbatim>\<open>{'error': str(e)}\<close> of line 168, \<open>UploadFailed\<close> the body of
  line 141 and \<open>UploadSuccess\<close> the one of line 159.
\<close>

datatype upload_body =
    UploadError string
  | UploadRaised pyerror
  | UploadFailed string "string option"
  | UploadSuccess pyval analysis pyval string

text \<open>
  \<open>uploaded\<close> is the filename of \<^verbatim>\<open>request.files['image']\<close>, or \<open>None\<close> without such a
  part. The result is the response (status and body), the session and the calls.
\<close>

definition upload_image ::
  "services \<Rightarrow> string option \<Rightarrow> string option \<Rightarrow> (string \<rightharpoonup> int) \<Rightarrow> string option \<Rightarrow>
     current_product option \<Rightarrow> call list \<Rightarrow>
     (nat \<times> upload_body) \<times> current_product option \<times> call list" where
  "upload_image sv api_key env_key fssai_inr_baseline uploaded session calls =
     (case uploaded of
        None \<Rightarrow> ((400, UploadError ''No image file provided''), session, calls)
      | Some file_name \<Rightarrow>
          if file_name = [] then ((400, UploadError ''No file selected''), session, calls)
          else if \<not> allowed_file file_name ALLOWED_EXTENSIONS then
            ((400, UploadError
                ''Invalid file type. Please upload an image (PNG, JPG, JPEG, GIF, WEBP)''),
             session, calls)
          else
            (case save_upload sv file_name of
               Inl e \<Rightarrow> ((500, UploadRaised e), session, calls)
             | Inr (filepath, stamped) \<Rightarrow>
                 (case nutrition_analysis_chain sv api_key env_key fssai_inr_baseline
                         filepath calls of
                    (Inl e, calls') \<Rightarrow> ((500, UploadRaised e), session, calls')
                  | (Inr (StepFailure error details p), calls') \<Rightarrow>
                      ((500, UploadFailed error details), session, calls')
                  | (Inr (Extracted p d), calls') \<Rightarrow>
                      ((500, UploadRaised (KeyError ''analysis'')), session, calls')
                  | (Inr (Analysed p d a), calls') \<Rightarrow>
                      ((500, UploadRaised (KeyError ''inr_result'')), session, calls')
                  | (Inr (Rated p d a r), calls') \<Rightarrow>
                      ((200, UploadSuccess d a r stamped),
                       Some \<lparr>product_data = d, analysis = a, inr_result = r,
                             image_path = filepath\<rparr>,
                       calls'))))"

text \<open>\<^verbatim>\<open>clear_session\<close> (line 236): \<^verbatim>\<open>session.pop('current_product', None)\<close>.\<close>

definition clear_session :: "current_product option \<Rightarrow> current_product option" where
  "clear_session session = None"

subsection \<open>The chat handler (app.py, line 172)\<close>

text \<open>
  The prompt of line 189, built from the stored product. Its fields are evaluated in
  order; a missing key or a value that cannot be formatted or joined raises.
  \<open>or_none s\<close> is \<^verbatim>\<open>s or 'None'\<close>.
\<close>

definition or_none :: "string \<Rightarrow> string" where
  "or_none s = (if s = [] then ''None'' else s)"

definition product_context :: "current_product \<Rightarrow> string \<Rightarrow> pyerror + hole list" where
  "product_context cp msg =
     and_then (py_get (product_data cp) ''product_name'' (PStr ''Unknown'')) (\<lambda>name.
     and_then (py_get (product_data cp) ''brand'' (PStr ''Unknown'')) (\<lambda>brand.
     and_then (py_get (product_data cp) ''product_type'' (PStr ''Solid'')) (\<lambda>ptype.
     and_then (py_getitem (inr_result cp) ''inr_score'') (\<lambda>score.
     and_then (format_1f score) (\<lambda>score_text.
     and_then (py_getitem (inr_result cp) ''grade'') (\<lambda>grade.
     and_then (py_getitem (product_data cp) ''nutritional_info_per_100g'') (\<lambda>info.
     and_then (each_in_order (py_getitem info) nutrients) (\<lambda>vals.
     and_then (py_get (inr_result cp) ''health_warnings'' (PList [])) (\<lambda>warnings.
     and_then (py_join warnings) (\<lambda>warnings_text.
     and_then (py_get (inr_result cp) ''positive_claims'' (PList [])) (\<lambda>claims.
     and_then (py_join claims) (\<lambda>claims_text.
     Inr ([Plain name, Plain brand, Plain ptype, score_text, Plain grade] @ map Plain vals @
          [Text (or_none warnings_text), Text (or_none claims_text), Text msg])))))))))))))"

text \<open>
  The JSON bodies of \<^verbatim>\<open>/chat\<close>: \<open>ChatError msg\<close> is
  \<^verbatim>\<open>{'success': False, 'error': msg}\<close>, \<open>ChatRaised e\<close> the same with \<^verbatim>\<open>str(e)\<close>, and
  \<open>ChatResponse text\<close> is \<^verbatim>\<open>{'success': True, 'response': text}\<close>.
\<close>

datatype chat_body =
    ChatError string
  | ChatRaised pyerror
  | ChatResponse string

text \<open>
  \<open>message\<close> is the \<^verbatim>\<open>'message'\<close> entry of the request body, a string, or \<open>None\<close>
  without one. A stored product is a dict of four keys, so \<^verbatim>\<open>if current_product\<close> is
  true exactly when one is stored. The handler does not write to the session.
\<close>

definition chat ::
  "services \<Rightarrow> string option \<Rightarrow> current_product option \<Rightarrow> call list \<Rightarrow>
     (nat \<times> chat_body) \<times> call list" where
  "chat sv message session calls =
     (let msg = (case message of None \<Rightarrow> [] | Some m \<Rightarrow> m)
      in if msg = [] then ((400, ChatError ''No message provided''), calls)
         else
           (case session of
              Some cp \<Rightarrow>
                (case product_context cp msg of
                   Inl e \<Rightarrow> ((500, ChatRaised e), calls)
                 | Inr prompt \<Rightarrow>
                     (case chat_model sv prompt of
                        Inl e \<Rightarrow> ((500, ChatRaised e), calls @ [Generation prompt])
                      | Inr response_text \<Rightarrow>
                          ((200, ChatResponse response_text), calls @ [Generation prompt])))
            | None \<Rightarrow>
                (case rag_chain sv msg of
                   Inl e \<Rightarrow> ((500, ChatRaised e), calls @ [Retrieval msg])
                 | Inr answer \<Rightarrow> ((200, ChatResponse answer), calls @ [Retrieval msg]))))"

subsection \<open>Scripted collaborators for the examples\<close>

text \<open>
  \<^verbatim>\<open>json.loads\<close> on the texts the examples below hand to it. Four documents are
  decoded; \<^verbatim>\<open>{} and {}\<close> has extra data after its first object; every other text of the
  examples is plain prose, for which the error is the one of the last line.
\<close>

definition example_loads :: "string \<Rightarrow> pyerror + pyval" where
  \<open>example_loads s =
     (if s = ''{}'' then Inr (PDict [])
      else if s = ''{"inr_score": 150, "grade": "E"}'' then
        Inr (PDict [(''inr_score'', PInt 150), (''grade'', PStr ''E'')])
      else if s = ''{"inr_score": 62, "grade": "B", "health_warnings": ["High sugar"]}'' then
        Inr (PDict [(''inr_score'', PInt 62), (''grade'', PStr ''B''),
                    (''health_warnings'', PList [PStr ''High sugar''])])
      else if s = ''{"product_name": "Oat Bar", "nutritional_info_per_100g": {"energy_kcal": 450, "sugars_g": 25, "saturated_fat_g": 8, "sodium_mg": 200, "protein_g": 6, "fiber_g": 2}}'' then
        Inr (PDict [(''product_name'', PStr ''Oat Bar''),
                    (''nutritional_info_per_100g'',
                     PDict [(''energy_kcal'', PInt 450), (''sugars_g'', PInt 25),
                            (''saturated_fat_g'', PInt 8), (''sodium_mg'', PInt 200),
                            (''protein_g'', PInt 6), (''fiber_g'', PInt 2)])])
      else if s = ''{} and {}'' then
        Inl (JSONDecodeError ''Extra data: line 1 column 4 (char 3)'')
      else Inl (JSONDecodeError ''Expecting value: line 1 column 1 (char 0)''))\<close>

text \<open>
  Collaborators that answer every call the same way: the vision model with \<open>v\<close>, the
  reasoning model with \<open>r\<close>, the retrieval chain and the chat model with a fixed text.
  Saving an upload gives a path under \<^verbatim>\<open>uploads/\<close>.
\<close>

definition scripted :: "pyerror + string \<Rightarrow> pyerror + string \<Rightarrow> services" where
  "scripted v r =
     \<lparr>vision_model = (\<lambda>key path. v),
      json_loads = example_loads,
      reasoning_model = (\<lambda>prompt. r),
      save_upload = (\<lambda>name. Inr (''uploads/20260101_120000_'' @ name, ''20260101_120000_'' @ name)),
      rag_chain = (\<lambda>msg. Inr ''retrieved answer''),
      chat_model = (\<lambda>prompt. Inr ''generated answer'')\<rparr>"

text \<open>
  The label of the scenario of the specification as the vision model's reply, and the
  session left by uploading \<^verbatim>\<open>label.png\<close> when the reasoning model replies \<open>r\<close>.
\<close>

definition oat_bar_reply :: string where
  \<open>oat_bar_reply = ''{"product_name": "Oat Bar", "nutritional_info_per_100g": {"energy_kcal": 450, "sugars_g": 25, "saturated_fat_g": 8, "sodium_mg": 200, "protein_g": 6, "fiber_g": 2}}''\<close>

definition session_after_upload :: "string \<Rightarrow> current_product option" where
  "session_after_upload r =
     fst (snd (upload_image (scripted (Inr oat_bar_reply) (Inr r)) (Some ''key'') None
                 FSSAI_INR_BASELINE (Some ''label.png'') None []))"

text \<open>
  The same label decoded, its analysis (the percentages of the scenario: 22.5, 50, 40,
  10, 12 and 8), a rating result, and the product these make in a session.
\<close>

definition oat_bar :: pyval where
  "oat_bar =
     PDict [(''product_name'', PStr ''Oat Bar''),
            (''nutritional_info_per_100g'',
             PDict [(''energy_kcal'', PInt 450), (''sugars_g'', PInt 25),
                    (''saturated_fat_g'', PInt 8), (''sodium_mg'', PInt 200),
                    (''protein_g'', PInt 6), (''fiber_g'', PInt 2)])]"

definition oat_bar_analysis :: analysis where
  "oat_bar_analysis =
     [(''energy_kcal'',
       \<lparr>per_100g = FloatN (Fin 450), inr_baseline = 2000,
        percent_of_inr = FloatN (Fin (45 / 2))\<rparr>),
      (''sugars_g'',
       \<lparr>per_100g = FloatN (Fin 25), inr_baseline = 50, percent_of_inr = FloatN (Fin 50)\<rparr>),
      (''saturated_fat_g'',
       \<lparr>per_100g = FloatN (Fin 8), inr_baseline = 20, percent_of_inr = FloatN (Fin 40)\<rparr>),
      (''sodium_mg'',
       \<lparr>per_100g = FloatN (Fin 200), inr_baseline = 2000, percent_of_inr = FloatN (Fin 10)\<rparr>),
      (''protein_g'',
       \<lparr>per_100g = FloatN (Fin 6), inr_baseline = 50, percent_of_inr = FloatN (Fin 12)\<rparr>),
      (''fiber_g'',
       \<lparr>per_100g = FloatN (Fin 2), inr_baseline = 25, percent_of_inr = FloatN (Fin 8)\<rparr>)]"

definition rating_reply :: string where
  \<open>rating_reply = ''{"inr_score": 62, "grade": "B", "health_warnings": ["High sugar"]}''\<close>

definition rating :: pyval where
  "rating =
     PDict [(''inr_score'', PInt 62), (''grade'', PStr ''B''),
            (''health_warnings'', PList [PStr ''High sugar''])]"

definition stored_oat_bar :: "pyval \<Rightarrow> current_product" where
  "stored_oat_bar r =
     \<lparr>product_data = oat_bar, analysis = oat_bar_analysis, inr_result = r,
      image_path = ''uploads/20260101_120000_label.png''\<rparr>"

subsection \<open>The rating reply as the specification reads it\<close>

text \<open>
  Section 4.3 of the specification: "the model's reply is scanned for the first balanced
  JSON object (brace-matched)". \<open>balanced_from d s\<close> reads \<open>s\<close> with \<open>d\<close> braces open and
  returns the text up to the brace that closes the outermost one;
  \<open>first_balanced_object\<close> tries each opening brace in turn.
\<close>

fun balanced_from :: "nat \<Rightarrow> string \<Rightarrow> string option" where
  "balanced_from d [] = None"
| "balanced_from d (c # cs) =
     (if c = CHR ''{'' then map_option ((#) c) (balanced_from (Suc d) cs)
      else if c = CHR ''}'' then
        (if d \<le> 1 then Some [c] else map_option ((#) c) (balanced_from (d - 1) cs))
      else map_option ((#) c) (balanced_from d cs))"

fun first_balanced_object :: "string \<Rightarrow> string option" where
  "first_balanced_object [] = None"
| "first_balanced_object (c # cs) =
     (if c = CHR ''{'' then
        (case balanced_from 0 (c # cs) of
           Some b \<Rightarrow> Some b
         | None \<Rightarrow> first_balanced_object cs)
      else first_balanced_object cs)"

section \<open>Properties\<close>

subsection \<open>Normalization: the mandatory nutrients\<close>

lemma map_of_update: "map_of (AList.update k v al) = (map_of al)(k \<mapsto> v)"
  by (rule update_conv')

lemma py_float_error: "py_float v = Inl e \<Longrightarrow> e = TypeError \<or> e = ValueError \<or> e = OverflowError"
  by (cases v) (auto simp: int_to_float_def split: if_splits option.splits)

lemma py_float_overflow:
  "py_float v = Inl OverflowError \<longleftrightarrow> (\<exists>k. v = PInt k \<and> float_overflow_bound \<le> \<bar>k\<bar>)"
  by (cases v) (auto simp: int_to_float_def split: if_splits option.splits)

lemma baseline_values:
  assumes "FSSAI_INR_BASELINE n = Some b"
  shows "b \<noteq> 0 \<and> \<bar>b\<bar> < float_overflow_bound"
  using assms unfolding FSSAI_INR_BASELINE_def float_overflow_bound_def
  by (auto split: if_splits)

lemma baseline_mandatory:
  assumes "n \<in> set nutrients"
  shows "\<exists>b. FSSAI_INR_BASELINE n = Some b"
  using assms unfolding FSSAI_INR_BASELINE_def nutrients_def by auto

lemma baseline_fiber: "FSSAI_INR_BASELINE ''fiber_g'' = Some 25"
  unfolding FSSAI_INR_BASELINE_def by simp

lemma analysis_loop_lookup:
  "analysis_loop pn bl ns a = Inr a' \<Longrightarrow>
   map_of a' n = (if n \<in> set ns then (case mandatory_entry pn bl n of Inr e \<Rightarrow> Some e | Inl _ \<Rightarrow> None) else map_of a n)"
proof (induction ns arbitrary: a)
  case Nil
  then show ?case by simp
next
  case (Cons m ms)
  from Cons.prems obtain e where
    e: "mandatory_entry pn bl m = Inr e" and
    rest: "analysis_loop pn bl ms (AList.update m e a) = Inr a'"
    by (auto split: sum.splits)
  from Cons.IH [OF rest] e show ?case by (simp add: map_of_update)
qed

lemma analysis_loop_total:
  "(\<forall>n \<in> set ns. \<exists>e. mandatory_entry pn bl n = Inr e) \<Longrightarrow> \<exists>a'. analysis_loop pn bl ns a = Inr a'"
  by (induction ns arbitrary: a) auto

lemma coerce_value_eq:
  assumes "\<forall>k. got = Some (PInt k) \<longrightarrow> \<bar>k\<bar> < float_overflow_bound"
  shows "coerce_value got =
     Inr (case got of
            None \<Rightarrow> FloatN (Fin 0)
          | Some v \<Rightarrow>
              if v = PStr ''Not Available'' \<or> v = PNone \<or> v = PStr ''N/A'' then IntN 0
              else (case py_float v of Inr f \<Rightarrow> FloatN f | Inl _ \<Rightarrow> IntN 0))"
proof (cases got)
  case None
  then show ?thesis
    by (simp add: coerce_value_def int_to_float_def float_overflow_bound_def)
next
  case (Some v)
  show ?thesis
  proof (cases "py_float v")
    case (Inl e)
    have "e \<noteq> OverflowError"
    proof
      assume "e = OverflowError"
      with Inl obtain k where "v = PInt k" "float_overflow_bound \<le> \<bar>k\<bar>"
        by (auto simp: py_float_overflow)
      with assms Some show False by auto
    qed
    with py_float_error [OF Inl] Inl Some show ?thesis
      by (auto simp: coerce_value_def)
  next
    case (Inr f)
    with Some show ?thesis by (simp add: coerce_value_def)
  qed
qed

lemma percent_of_eq:
  assumes "b \<noteq> 0" and "\<bar>b\<bar> < float_overflow_bound" and "\<forall>k. value = IntN k \<longrightarrow> k = 0"
  shows "percent_of value b =
     Inr (case value of
            FloatN f \<Rightarrow> if float_truthy f then FloatN (float_times_100 (float_over f b)) else IntN 0
          | IntN _ \<Rightarrow> IntN 0)"
  using assms by (cases "value") (auto simp: percent_of_def float_div_int_def)


lemma mandatory_entry_eq:
  assumes r: "\<forall>k. map_of pn n = Some (PInt k) \<longrightarrow> \<bar>k\<bar> < float_overflow_bound"
    and b: "FSSAI_INR_BASELINE n = Some b"
  shows "\<exists>e. mandatory_entry pn FSSAI_INR_BASELINE n = Inr e \<and> inr_baseline e = b \<and>
     per_100g e =
       (case map_of pn n of
          None \<Rightarrow> FloatN (Fin 0)
        | Some v \<Rightarrow>
            if v = PStr ''Not Available'' \<or> v = PNone \<or> v = PStr ''N/A'' then IntN 0
            else (case py_float v of Inr f \<Rightarrow> FloatN f | Inl _ \<Rightarrow> IntN 0)) \<and>
     percent_of_inr e =
       (case per_100g e of
          FloatN f \<Rightarrow> if float_truthy f then FloatN (float_times_100 (float_over f b)) else IntN 0
        | IntN _ \<Rightarrow> IntN 0)"
proof -
  define v where "v = (case map_of pn n of
          None \<Rightarrow> FloatN (Fin 0)
        | Some v \<Rightarrow>
            if v = PStr ''Not Available'' \<or> v = PNone \<or> v = PStr ''N/A'' then IntN 0
            else (case py_float v of Inr f \<Rightarrow> FloatN f | Inl _ \<Rightarrow> IntN 0))"
  have c: "coerce_value (map_of pn n) = Inr v"
    unfolding v_def by (rule coerce_value_eq [OF r])
  have z: "\<forall>k. v = IntN k \<longrightarrow> k = 0"
    unfolding v_def by (auto split: option.splits sum.splits)
  from baseline_values [OF b] have nz: "b \<noteq> 0" and sm: "\<bar>b\<bar> < float_overflow_bound" by simp_all
  have p: "percent_of v b =
     Inr (case v of
            FloatN f \<Rightarrow> if float_truthy f then FloatN (float_times_100 (float_over f b)) else IntN 0
          | IntN _ \<Rightarrow> IntN 0)"
    by (rule percent_of_eq [OF nz sm z])
  show ?thesis
    unfolding mandatory_entry_def c using b p by (simp add: v_def)
qed

lemma add_fiber_eq:
  assumes r: "\<forall>k. map_of pn ''fiber_g'' = Some (PInt k) \<longrightarrow> \<bar>k\<bar> < float_overflow_bound"
  shows "add_fiber pn FSSAI_INR_BASELINE a =
     Inr (case map_of pn ''fiber_g'' of
            None \<Rightarrow> a
          | Some v \<Rightarrow>
              if v = PStr ''Not Available'' \<or> v = PNone \<or> v = PStr ''N/A'' then a
              else (case py_float v of
                      Inl _ \<Rightarrow> a
                    | Inr f \<Rightarrow>
                        AList.update ''fiber_g''
                          \<lparr>per_100g = FloatN f, inr_baseline = 25,
                           percent_of_inr = FloatN (float_times_100 (float_over f 25))\<rparr> a))"
proof (cases "map_of pn ''fiber_g''")
  case None
  then show ?thesis by (simp add: add_fiber_def)
next
  case (Some v)
  have d: "float_div_int f 25 = Inr (float_over f 25)" for f
    by (simp add: float_div_int_def float_overflow_bound_def)
  show ?thesis
  proof (cases "py_float v")
    case (Inl e)
    have "e \<noteq> OverflowError"
    proof
      assume "e = OverflowError"
      with Inl obtain k where "v = PInt k" "float_overflow_bound \<le> \<bar>k\<bar>"
        by (auto simp: py_float_overflow)
      with r Some show False by auto
    qed
    with py_float_error [OF Inl] Inl Some show ?thesis
      by (auto simp: add_fiber_def)
  next
    case (Inr f)
    with Some show ?thesis by (simp add: add_fiber_def baseline_fiber d)
  qed
qed

lemma fiber_not_mandatory: "n \<in> set nutrients \<Longrightarrow> n \<noteq> ''fiber_g''"
  by (auto simp: nutrients_def)

lemma add_fiber_other:
  assumes "add_fiber pn bl a = Inr a'" and "n \<noteq> ''fiber_g''"
  shows "map_of a' n = map_of a n"
  using assms
  by (auto simp: add_fiber_def map_of_update split: option.splits if_splits sum.splits)

text \<open>
  C1, as the code has it. Take any product nutrition mapping in which no value of a
  mandatory nutrient or of fiber is an int beyond the range of a float. With the fixed
  baseline the function returns an analysis that has an entry for each of the five
  mandatory nutrients. Its \<open>per_100g\<close> is the float of the profile value, with an absent
  key read as 0.0 and "Not Available", "N/A", null and every value \<^verbatim>\<open>float()\<close> rejects
  read as 0. Its \<open>percent_of_inr\<close> is value / baseline * 100 whenever the value is true
  in Python's sense (not zero: a negative value, an infinity or a NaN count), and 0
  otherwise. The baseline of each mandatory nutrient is positive.
\<close>

theorem mandatory_nutrients_present:
  assumes "\<forall>n \<in> set (nutrients @ [''fiber_g'']). \<forall>k.
             map_of product_nutrition n = Some (PInt k) \<longrightarrow> \<bar>k\<bar> < float_overflow_bound"
  shows "\<exists>a. calculate_nutrient_analysis product_nutrition FSSAI_INR_BASELINE = Inr a \<and>
     (\<forall>n \<in> set nutrients. \<exists>e b.
        map_of a n = Some e \<and> FSSAI_INR_BASELINE n = Some b \<and> 0 < b \<and> inr_baseline e = b \<and>
        per_100g e =
          (case map_of product_nutrition n of
             None \<Rightarrow> FloatN (Fin 0)
           | Some v \<Rightarrow>
               if v = PStr ''Not Available'' \<or> v = PNone \<or> v = PStr ''N/A'' then IntN 0
               else (case py_float v of Inr f \<Rightarrow> FloatN f | Inl _ \<Rightarrow> IntN 0)) \<and>
        percent_of_inr e =
          (case per_100g e of
             FloatN f \<Rightarrow>
               if float_truthy f then FloatN (float_times_100 (float_over f b)) else IntN 0
           | IntN _ \<Rightarrow> IntN 0))"
proof -
  have in_range: "\<forall>k. map_of product_nutrition n = Some (PInt k) \<longrightarrow> \<bar>k\<bar> < float_overflow_bound"
    if "n \<in> set nutrients \<or> n = ''fiber_g''" for n
    using assms that by auto
  have entry: "\<exists>e. mandatory_entry product_nutrition FSSAI_INR_BASELINE n = Inr e"
    if "n \<in> set nutrients" for n
  proof -
    from baseline_mandatory [OF that] obtain b where "FSSAI_INR_BASELINE n = Some b" ..
    from mandatory_entry_eq [OF in_range this] that show ?thesis by blast
  qed
  then obtain a0 where
    a0: "analysis_loop product_nutrition FSSAI_INR_BASELINE nutrients [] = Inr a0"
    using analysis_loop_total [of nutrients product_nutrition FSSAI_INR_BASELINE "[]"] by blast
  from add_fiber_eq [OF in_range, of a0] obtain a where
    a: "add_fiber product_nutrition FSSAI_INR_BASELINE a0 = Inr a" by simp
  have res: "calculate_nutrient_analysis product_nutrition FSSAI_INR_BASELINE = Inr a"
    by (simp add: calculate_nutrient_analysis_def a0 a)
  have "\<exists>e b. map_of a n = Some e \<and> FSSAI_INR_BASELINE n = Some b \<and> 0 < b \<and> inr_baseline e = b \<and>
        per_100g e =
          (case map_of product_nutrition n of
             None \<Rightarrow> FloatN (Fin 0)
           | Some v \<Rightarrow>
               if v = PStr ''Not Available'' \<or> v = PNone \<or> v = PStr ''N/A'' then IntN 0
               else (case py_float v of Inr f \<Rightarrow> FloatN f | Inl _ \<Rightarrow> IntN 0)) \<and>
        percent_of_inr e =
          (case per_100g e of
             FloatN f \<Rightarrow>
               if float_truthy f then FloatN (float_times_100 (float_over f b)) else IntN 0
           | IntN _ \<Rightarrow> IntN 0)"
    if n: "n \<in> set nutrients" for n
  proof -
    from baseline_mandatory [OF n] obtain b where b: "FSSAI_INR_BASELINE n = Some b" ..
    have pos: "0 < b" using b n by (auto simp: FSSAI_INR_BASELINE_def nutrients_def)
    from mandatory_entry_eq [OF in_range b] n obtain e where
      e: "mandatory_entry product_nutrition FSSAI_INR_BASELINE n = Inr e" and
      props: "inr_baseline e = b"
        "per_100g e =
          (case map_of product_nutrition n of
             None \<Rightarrow> FloatN (Fin 0)
           | Some v \<Rightarrow>
               if v = PStr ''Not Available'' \<or> v = PNone \<or> v = PStr ''N/A'' then IntN 0
               else (case py_float v of Inr f \<Rightarrow> FloatN f | Inl _ \<Rightarrow> IntN 0))"
        "percent_of_inr e =
          (case per_100g e of
             FloatN f \<Rightarrow>
               if float_truthy f then FloatN (float_times_100 (float_over f b)) else IntN 0
           | IntN _ \<Rightarrow> IntN 0)"
      by blast
    have "map_of a0 n = Some e"
      using analysis_loop_lookup [OF a0, of n] n e by simp
    then have "map_of a n = Some e"
      using add_fiber_other [OF a fiber_not_mandatory [OF n]] by simp
    with b pos props show ?thesis by blast
  qed
  with res show ?thesis by blast
qed

theorem mandatory_nutrients_present_witness:
  "\<exists>a. calculate_nutrient_analysis
          [(''energy_kcal'', PInt 450), (''sugars_g'', PStr ''N/A''),
           (''sodium_mg'', PStr ''200'')] FSSAI_INR_BASELINE = Inr a \<and>
        (\<forall>n \<in> set nutrients. \<exists>e. map_of a n = Some e)"
proof -
  let ?pn = "[(''energy_kcal'', PInt 450), (''sugars_g'', PStr ''N/A''),
              (''sodium_mg'', PStr ''200'')]"
  have h: "\<forall>n \<in> set (nutrients @ [''fiber_g'']). \<forall>k.
      map_of ?pn n = Some (PInt k) \<longrightarrow> \<bar>k\<bar> < float_overflow_bound"
    by (simp add: nutrients_def float_overflow_bound_def)
  from mandatory_nutrients_present [OF h] show ?thesis by blast
qed

text \<open>
  The claim as written gives 0 for every value that is not positive. At
  \<^verbatim>\<open>{"energy_kcal": -5}\<close> the code stores -5 / 2000 * 100 = -0.25.
\<close>

theorem negative_value_percent_counterexample:
  "calculate_nutrient_analysis [(''energy_kcal'', PInt (- 5))] FSSAI_INR_BASELINE =
     Inr [(''energy_kcal'',
           \<lparr>per_100g = FloatN (Fin (- 5)), inr_baseline = 2000,
            percent_of_inr = FloatN (Fin (- (1 / 4)))\<rparr>),
          (''sugars_g'',
           \<lparr>per_100g = FloatN (Fin 0), inr_baseline = 50, percent_of_inr = IntN 0\<rparr>),
          (''saturated_fat_g'',
           \<lparr>per_100g = FloatN (Fin 0), inr_baseline = 20, percent_of_inr = IntN 0\<rparr>),
          (''sodium_mg'',
           \<lparr>per_100g = FloatN (Fin 0), inr_baseline = 2000, percent_of_inr = IntN 0\<rparr>),
          (''protein_g'',
           \<lparr>per_100g = FloatN (Fin 0), inr_baseline = 50, percent_of_inr = IntN 0\<rparr>)]"
  by code_simp

subsection \<open>Fiber\<close>

text \<open>
  Away from ints beyond the range of a float, fiber is handled as follows. An absent
  key, null, "Not Available", "N/A" and every value \<^verbatim>\<open>float()\<close> rejects leave
  \<open>fiber_g\<close> out of the analysis. Every other value, zero included, is stored with
  \<open>percent_of_inr\<close> = fiber / 25 * 100.
\<close>

lemma fiber_entry:
  assumes "\<forall>n \<in> set (nutrients @ [''fiber_g'']). \<forall>k.
             map_of product_nutrition n = Some (PInt k) \<longrightarrow> \<bar>k\<bar> < float_overflow_bound"
  shows "\<exists>a. calculate_nutrient_analysis product_nutrition FSSAI_INR_BASELINE = Inr a \<and>
     map_of a ''fiber_g'' =
       (case map_of product_nutrition ''fiber_g'' of
          None \<Rightarrow> None
        | Some v \<Rightarrow>
            if v = PStr ''Not Available'' \<or> v = PNone \<or> v = PStr ''N/A'' then None
            else (case py_float v of
                    Inl _ \<Rightarrow> None
                  | Inr f \<Rightarrow>
                      Some \<lparr>per_100g = FloatN f, inr_baseline = 25,
                            percent_of_inr = FloatN (float_times_100 (float_over f 25))\<rparr>))"
proof -
  have in_range: "\<forall>k. map_of product_nutrition n = Some (PInt k) \<longrightarrow> \<bar>k\<bar> < float_overflow_bound"
    if "n \<in> set nutrients \<or> n = ''fiber_g''" for n
    using assms that by auto
  have "\<exists>e. mandatory_entry product_nutrition FSSAI_INR_BASELINE n = Inr e"
    if "n \<in> set nutrients" for n
  proof -
    from baseline_mandatory [OF that] obtain b where "FSSAI_INR_BASELINE n = Some b" ..
    from mandatory_entry_eq [OF in_range this] that show ?thesis by blast
  qed
  then obtain a0 where
    a0: "analysis_loop product_nutrition FSSAI_INR_BASELINE nutrients [] = Inr a0"
    using analysis_loop_total [of nutrients product_nutrition FSSAI_INR_BASELINE "[]"] by blast
  have no_fiber: "map_of a0 ''fiber_g'' = None"
    using analysis_loop_lookup [OF a0, of "''fiber_g''"] by (simp add: nutrients_def)
  show ?thesis
    unfolding calculate_nutrient_analysis_def a0
    using add_fiber_eq [OF in_range, of a0] no_fiber
    by (auto simp: map_of_update split: option.splits sum.splits)
qed

text \<open>
  C6. The claim promises a \<open>fiber_g\<close> entry for every numeric fiber value. For the int
  \<open>2^1024\<close> the conversion \<^verbatim>\<open>float(fiber)\<close> raises \<^verbatim>\<open>OverflowError\<close>, which the
  \<^verbatim>\<open>except (ValueError, TypeError)\<close> of line 389 does not catch: the function returns
  no analysis at all.
\<close>

theorem fiber_overflow_raises:
  "calculate_nutrient_analysis
     [(''energy_kcal'', PInt 450), (''sugars_g'', PInt 25), (''saturated_fat_g'', PInt 8),
      (''sodium_mg'', PInt 200), (''protein_g'', PInt 6), (''fiber_g'', PInt (2 ^ 1024))]
     FSSAI_INR_BASELINE = Inl OverflowError"
  by code_simp

subsection \<open>Exceptions of the normalization\<close>

text \<open>
  C8. The claim promises a result for every input dictionary. For a mandatory nutrient
  holding the int \<open>2^1024\<close> the conversion \<^verbatim>\<open>float(value)\<close> of line 362 raises
  \<^verbatim>\<open>OverflowError\<close>, which \<^verbatim>\<open>except (ValueError, TypeError)\<close> does not catch.
\<close>

theorem mandatory_overflow_raises:
  "calculate_nutrient_analysis [(''energy_kcal'', PInt (2 ^ 1024))] FSSAI_INR_BASELINE =
     Inl OverflowError"
  by code_simp

text \<open>The other part of C8 holds: an unparseable string such as "12 g" becomes 0.\<close>

lemma unparseable_string_is_zero:
  "calculate_nutrient_analysis [(''energy_kcal'', PStr ''12 g'')] FSSAI_INR_BASELINE =
     Inr [(''energy_kcal'',
           \<lparr>per_100g = IntN 0, inr_baseline = 2000, percent_of_inr = IntN 0\<rparr>),
          (''sugars_g'',
           \<lparr>per_100g = FloatN (Fin 0), inr_baseline = 50, percent_of_inr = IntN 0\<rparr>),
          (''saturated_fat_g'',
           \<lparr>per_100g = FloatN (Fin 0), inr_baseline = 20, percent_of_inr = IntN 0\<rparr>),
          (''sodium_mg'',
           \<lparr>per_100g = FloatN (Fin 0), inr_baseline = 2000, percent_of_inr = IntN 0\<rparr>),
          (''protein_g'',
           \<lparr>per_100g = FloatN (Fin 0), inr_baseline = 50, percent_of_inr = IntN 0\<rparr>)]"
  by code_simp

text \<open>
  Apart from that overflow the function always returns: \<^verbatim>\<open>OverflowError\<close> is the only
  exception it can raise with the fixed baseline.
\<close>

lemma coerce_value_error: "coerce_value got = Inl e \<Longrightarrow> e = OverflowError"
  by (auto simp: coerce_value_def Let_def split: if_splits sum.splits dest: py_float_error)

lemma coerce_value_int: "coerce_value got = Inr (IntN k) \<Longrightarrow> k = 0"
  by (auto simp: coerce_value_def Let_def split: if_splits sum.splits)

lemma mandatory_entry_error:
  assumes "mandatory_entry pn FSSAI_INR_BASELINE n = Inl e"
  shows "e = OverflowError"
proof (cases "coerce_value (map_of pn n)")
  case (Inl e')
  with assms have "e' = e" by (simp add: mandatory_entry_def)
  with coerce_value_error [OF Inl] show ?thesis by simp
next
  case (Inr v)
  define b where "b = (case FSSAI_INR_BASELINE n of None \<Rightarrow> 1 | Some b \<Rightarrow> b)"
  have "b \<noteq> 0 \<and> \<bar>b\<bar> < float_overflow_bound"
  proof (cases "FSSAI_INR_BASELINE n")
    case None
    then show ?thesis by (simp add: b_def float_overflow_bound_def)
  next
    case (Some c)
    with baseline_values [OF Some] show ?thesis by (simp add: b_def)
  qed
  moreover have "\<forall>k. v = IntN k \<longrightarrow> k = 0" using coerce_value_int Inr by blast
  ultimately obtain p where "percent_of v b = Inr p" using percent_of_eq [of b v] by blast
  with assms Inr show ?thesis by (simp add: mandatory_entry_def b_def)
qed

lemma analysis_loop_error:
  "analysis_loop pn bl ns a = Inl e \<Longrightarrow> \<exists>n \<in> set ns. mandatory_entry pn bl n = Inl e"
  by (induction ns arbitrary: a) (auto split: sum.splits)

lemma add_fiber_error:
  assumes "add_fiber pn FSSAI_INR_BASELINE a = Inl e"
  shows "e = OverflowError"
proof -
  have d: "float_div_int f 25 = Inr (float_over f 25)" for f
    by (simp add: float_div_int_def float_overflow_bound_def)
  from assms show ?thesis
    by (auto simp: add_fiber_def baseline_fiber d split: option.splits if_splits sum.splits
        dest: py_float_error)
qed

lemma normalization_only_overflow:
  assumes "calculate_nutrient_analysis product_nutrition FSSAI_INR_BASELINE = Inl e"
  shows "e = OverflowError"
proof (cases "analysis_loop product_nutrition FSSAI_INR_BASELINE nutrients []")
  case (Inl e')
  with assms have "e' = e" by (simp add: calculate_nutrient_analysis_def)
  with analysis_loop_error [OF Inl] mandatory_entry_error show ?thesis by blast
next
  case (Inr a)
  with assms have "add_fiber product_nutrition FSSAI_INR_BASELINE a = Inl e"
    by (simp add: calculate_nutrient_analysis_def)
  then show ?thesis by (rule add_fiber_error)
qed

subsection \<open>The scenario of the specification\<close>

text \<open>
  Section 8: the label with energy 450, sugars 25, saturated fat 8, sodium 200, protein 6
  and fiber 2 has the percentages 22.5, 50, 40, 10, 12 and 8.
\<close>

lemma scenario_percentages:
  "calculate_nutrient_analysis
     [(''energy_kcal'', PInt 450), (''sugars_g'', PInt 25), (''saturated_fat_g'', PInt 8),
      (''sodium_mg'', PInt 200), (''protein_g'', PInt 6), (''fiber_g'', PInt 2)]
     FSSAI_INR_BASELINE = Inr oat_bar_analysis"
  by code_simp

subsection \<open>The pipeline: short circuit\<close>

lemma chain_after_extraction_failure:
  assumes "extract_nutrition_info_gpt4o sv api_key env_key path = Inr (ExtractionFailed error raw)"
  shows "extract_nutrition_step sv api_key env_key path calls =
           (Inr (StepFailure ''Nutrition extraction failed'' (Some error) path),
            calls @ [Extraction path])"
    and "nutrition_analysis_chain sv api_key env_key bl path calls =
           extract_nutrition_step sv api_key env_key path calls"
  using assms by (simp_all add: extract_nutrition_step_def nutrition_analysis_chain_def)

lemma chain_after_rating_none:
  assumes "extract_nutrition_info_gpt4o sv api_key env_key path = Inr (ExtractionOk pd raw)"
    and "py_getitem pd ''nutritional_info_per_100g'' = Inr info"
    and "normalize info bl = Inr an"
    and "calculate_inr_score sv pd an bl = Inr PNone"
  shows "nutrition_analysis_chain sv api_key env_key bl path calls =
           (Inr (StepFailure ''INR score calculation failed'' None path),
            calls @ [Extraction path, Normalization, Rating])"
  using assms by (simp add: extract_nutrition_step_def nutrition_analysis_chain_def)

lemma analysis_step_result:
  assumes "calculate_analysis_step bl (Extracted path pd) calls = (Inr v, calls')"
  shows "(\<exists>an. v = Analysed path pd an) \<and> calls' = calls @ [Normalization]"
  using assms by (auto split: sum.splits)


lemma analysis_step_returns:
  assumes "py_getitem pd ''nutritional_info_per_100g'' = Inr (PDict kvs)"
    and "\<forall>n \<in> set (nutrients @ [''fiber_g'']). \<forall>k.
           map_of kvs n = Some (PInt k) \<longrightarrow> \<bar>k\<bar> < float_overflow_bound"
  shows "\<exists>an. calculate_analysis_step FSSAI_INR_BASELINE (Extracted path pd) calls =
           (Inr (Analysed path pd an), calls @ [Normalization])"
proof -
  from fiber_entry [OF assms(2)] obtain an where
    "calculate_nutrient_analysis kvs FSSAI_INR_BASELINE = Inr an" by blast
  with assms(1) show ?thesis by (simp add: normalize_def)
qed

text \<open>
  C2, as the code has it. When \<^verbatim>\<open>extract_nutrition_info_gpt4o\<close> returns a failure, the
  run calls neither the normalization nor the rating (the only call added is the
  extraction), and the pipeline's result is the failure value of the extraction step,
  unchanged. When the rating returns no result (\<^verbatim>\<open>None\<close>), the pipeline's result is the
  failure value \<^verbatim>\<open>{'success': False, 'error': 'INR score calculation failed'}\<close>. The
  normalization step has no failure value of its own: whatever it returns on an extracted
  product is a success value. With the fixed baseline it does return one whenever the
  product data holds a nutrition dict in which no value of a mandatory nutrient or of
  fiber is an int beyond the range of a float.
\<close>

theorem pipeline_short_circuit:
  "(extract_nutrition_info_gpt4o sv api_key env_key path = Inr (ExtractionFailed error raw) \<longrightarrow>
      extract_nutrition_step sv api_key env_key path calls =
        (Inr (StepFailure ''Nutrition extraction failed'' (Some error) path),
         calls @ [Extraction path]) \<and>
      nutrition_analysis_chain sv api_key env_key bl path calls =
        extract_nutrition_step sv api_key env_key path calls) \<and>
   (extract_nutrition_info_gpt4o sv api_key env_key path = Inr (ExtractionOk pd raw) \<and>
    py_getitem pd ''nutritional_info_per_100g'' = Inr info \<and>
    normalize info bl = Inr an \<and>
    calculate_inr_score sv pd an bl = Inr PNone \<longrightarrow>
      nutrition_analysis_chain sv api_key env_key bl path calls =
        (Inr (StepFailure ''INR score calculation failed'' None path),
         calls @ [Extraction path, Normalization, Rating])) \<and>
   (\<forall>v calls'. calculate_analysis_step bl (Extracted path pd) calls = (Inr v, calls') \<longrightarrow>
      (\<exists>an'. v = Analysed path pd an') \<and> calls' = calls @ [Normalization]) \<and>
   (py_getitem pd ''nutritional_info_per_100g'' = Inr (PDict kvs) \<and>
    (\<forall>n \<in> set (nutrients @ [''fiber_g'']). \<forall>k.
       map_of kvs n = Some (PInt k) \<longrightarrow> \<bar>k\<bar> < float_overflow_bound) \<longrightarrow>
      (\<exists>an'. calculate_analysis_step FSSAI_INR_BASELINE (Extracted path pd) calls =
         (Inr (Analysed path pd an'), calls @ [Normalization])))"
proof (intro conjI impI allI)
  assume "extract_nutrition_info_gpt4o sv api_key env_key path = Inr (ExtractionFailed error raw)"
  then show "extract_nutrition_step sv api_key env_key path calls =
        (Inr (StepFailure ''Nutrition extraction failed'' (Some error) path),
         calls @ [Extraction path])"
    and "nutrition_analysis_chain sv api_key env_key bl path calls =
        extract_nutrition_step sv api_key env_key path calls"
    by (rule chain_after_extraction_failure)+
next
  assume "extract_nutrition_info_gpt4o sv api_key env_key path = Inr (ExtractionOk pd raw) \<and>
    py_getitem pd ''nutritional_info_per_100g'' = Inr info \<and>
    normalize info bl = Inr an \<and>
    calculate_inr_score sv pd an bl = Inr PNone"
  then show "nutrition_analysis_chain sv api_key env_key bl path calls =
        (Inr (StepFailure ''INR score calculation failed'' None path),
         calls @ [Extraction path, Normalization, Rating])"
    using chain_after_rating_none by blast
next
  fix v calls'
  assume a: "calculate_analysis_step bl (Extracted path pd) calls = (Inr v, calls')"
  from analysis_step_result [OF a]
  show "\<exists>an'. v = Analysed path pd an'" and "calls' = calls @ [Normalization]"
    by simp_all
next
  assume "py_getitem pd ''nutritional_info_per_100g'' = Inr (PDict kvs) \<and>
    (\<forall>n \<in> set (nutrients @ [''fiber_g'']). \<forall>k.
       map_of kvs n = Some (PInt k) \<longrightarrow> \<bar>k\<bar> < float_overflow_bound)"
  then show "\<exists>an'. calculate_analysis_step FSSAI_INR_BASELINE (Extracted path pd) calls =
         (Inr (Analysed path pd an'), calls @ [Normalization])"
    using analysis_step_returns by blast
qed

theorem pipeline_short_circuit_witness:
  "nutrition_analysis_chain (scripted (Inr ''I cannot read this label'') (Inr []))
     (Some ''key'') None FSSAI_INR_BASELINE ''uploads/a.png'' [] =
     (Inr (StepFailure ''Nutrition extraction failed''
             (Some ''Failed to parse JSON: Expecting value: line 1 column 1 (char 0)'')
             ''uploads/a.png''),
      [Extraction ''uploads/a.png'']) \<and>
   nutrition_analysis_chain (scripted (Inr oat_bar_reply) (Inr ''I could not compute a score.''))
     (Some ''key'') None FSSAI_INR_BASELINE ''uploads/a.png'' [] =
     (Inr (StepFailure ''INR score calculation failed'' None ''uploads/a.png''),
      [Extraction ''uploads/a.png'', Normalization, Rating]) \<and>
   (\<exists>an. calculate_analysis_step FSSAI_INR_BASELINE (Extracted ''uploads/a.png'' oat_bar) [] =
      (Inr (Analysed ''uploads/a.png'' oat_bar an), [Normalization]))"
proof -
  let ?a = "scripted (Inr ''I cannot read this label'') (Inr [])"
  let ?b = "scripted (Inr oat_bar_reply) (Inr ''I could not compute a score.'')"
  let ?info = "PDict [(''energy_kcal'', PInt 450), (''sugars_g'', PInt 25),
                    (''saturated_fat_g'', PInt 8), (''sodium_mg'', PInt 200),
                    (''protein_g'', PInt 6), (''fiber_g'', PInt 2)]"
  let ?kvs = "[(''energy_kcal'', PInt 450), (''sugars_g'', PInt 25),
                    (''saturated_fat_g'', PInt 8), (''sodium_mg'', PInt 200),
                    (''protein_g'', PInt 6), (''fiber_g'', PInt 2)]"
  have h1: "extract_nutrition_info_gpt4o ?a (Some ''key'') None ''uploads/a.png'' =
      Inr (ExtractionFailed ''Failed to parse JSON: Expecting value: line 1 column 1 (char 0)''
             ''I cannot read this label'')"
    by code_simp
  have h2: "extract_nutrition_info_gpt4o ?b (Some ''key'') None ''uploads/a.png'' =
        Inr (ExtractionOk oat_bar oat_bar_reply) \<and>
      py_getitem oat_bar ''nutritional_info_per_100g'' = Inr ?info \<and>
      normalize ?info FSSAI_INR_BASELINE = Inr oat_bar_analysis \<and>
      calculate_inr_score ?b oat_bar oat_bar_analysis FSSAI_INR_BASELINE = Inr PNone"
    by code_simp
  have h3: "calculate_analysis_step FSSAI_INR_BASELINE (Extracted ''uploads/a.png'' oat_bar) [] =
      (Inr (Analysed ''uploads/a.png'' oat_bar oat_bar_analysis), [Normalization])"
    by code_simp
  have h4: "py_getitem oat_bar ''nutritional_info_per_100g'' = Inr (PDict ?kvs) \<and>
      (\<forall>n \<in> set (nutrients @ [''fiber_g'']). \<forall>k.
         map_of ?kvs n = Some (PInt k) \<longrightarrow> \<bar>k\<bar> < float_overflow_bound)"
    by (simp add: oat_bar_def nutrients_def float_overflow_bound_def)
  note t = pipeline_short_circuit
  from t [THEN conjunct1, rule_format, OF h1, of "[]" FSSAI_INR_BASELINE] h1
  have c1: "nutrition_analysis_chain ?a (Some ''key'') None FSSAI_INR_BASELINE ''uploads/a.png'' [] =
     (Inr (StepFailure ''Nutrition extraction failed''
             (Some ''Failed to parse JSON: Expecting value: line 1 column 1 (char 0)'')
             ''uploads/a.png''),
      [Extraction ''uploads/a.png''])"
    by simp
  from t [THEN conjunct2, THEN conjunct1, rule_format, OF h2, of "[]"]
  have c2: "nutrition_analysis_chain ?b (Some ''key'') None FSSAI_INR_BASELINE ''uploads/a.png'' [] =
     (Inr (StepFailure ''INR score calculation failed'' None ''uploads/a.png''),
      [Extraction ''uploads/a.png'', Normalization, Rating])"
    by simp
  from t [THEN conjunct2, THEN conjunct2, THEN conjunct1, rule_format, OF h3]
  have c3: "\<exists>an. Analysed ''uploads/a.png'' oat_bar oat_bar_analysis =
      Analysed ''uploads/a.png'' oat_bar an"
    by simp
  from t [THEN conjunct2, THEN conjunct2, THEN conjunct2, rule_format, OF h4,
      of "''uploads/a.png''" "[]"]
  have c4: "\<exists>an. calculate_analysis_step FSSAI_INR_BASELINE (Extracted ''uploads/a.png'' oat_bar) [] =
      (Inr (Analysed ''uploads/a.png'' oat_bar an), [Normalization])"
    by simp
  from c1 c2 c3 c4 show ?thesis by simp
qed

text \<open>
  The normalization step can fail inside the pipeline all the same, by raising. When
  the vision model replies \<^verbatim>\<open>{}\<close>, the extraction succeeds and
  \<^verbatim>\<open>product_data['nutritional_info_per_100g']\<close> of line 444 raises \<^verbatim>\<open>KeyError\<close>.
\<close>

theorem normalization_step_counterexample:
  "nutrition_analysis_chain (scripted (Inr ''{}'') (Inr [])) (Some ''key'') None
     FSSAI_INR_BASELINE ''uploads/a.png'' [] =
     (Inl (KeyError ''nutritional_info_per_100g''), [Extraction ''uploads/a.png''])"
  by code_simp

subsection \<open>The extraction stage\<close>

text \<open>
  C4, as the code has it. When \<^verbatim>\<open>json.loads\<close> rejects the payload of the vision model's
  reply with a \<^verbatim>\<open>JSONDecodeError\<close>, the stage returns a failure value that carries the
  parse error and the raw text of the reply, and does not raise; the pipeline step built
  on it returns a failure value with the parse error as its details. When the vision
  call raises, the stage does not catch it: the same exception leaves the stage and the
  pipeline, and the upload handler answers 500 with it, leaving the session as it was.
\<close>

theorem extraction_parse_failure_is_value:
  "(vision_model sv key path = Inr result_text \<and>
    json_loads sv (json_payload result_text) = Inl (JSONDecodeError msg) \<longrightarrow>
      extract_nutrition_info_gpt4o sv (Some key) env_key path =
        Inr (ExtractionFailed (''Failed to parse JSON: '' @ msg) result_text) \<and>
      extract_nutrition_step sv (Some key) env_key path calls =
        (Inr (StepFailure ''Nutrition extraction failed''
                (Some (''Failed to parse JSON: '' @ msg)) path),
         calls @ [Extraction path])) \<and>
   (vision_model sv key path = Inl e \<longrightarrow>
      extract_nutrition_info_gpt4o sv (Some key) env_key path = Inl e \<and>
      nutrition_analysis_chain sv (Some key) env_key bl path calls =
        (Inl e, calls @ [Extraction path])) \<and>
   (name \<noteq> [] \<and> allowed_file name ALLOWED_EXTENSIONS \<and>
    save_upload sv name = Inr (filepath, stamped) \<and>
    vision_model sv key filepath = Inl e \<longrightarrow>
      upload_image sv (Some key) env_key bl (Some name) session calls =
        ((500, UploadRaised e), session, calls @ [Extraction filepath]))"
  by (simp add: extract_nutrition_info_gpt4o_def and_then_def extract_nutrition_step_def
      nutrition_analysis_chain_def upload_image_def)

theorem extraction_parse_failure_is_value_witness:
  "extract_nutrition_info_gpt4o (scripted (Inr ''I cannot read this label'') (Inr []))
     (Some ''key'') None ''uploads/a.png'' =
     Inr (ExtractionFailed ''Failed to parse JSON: Expecting value: line 1 column 1 (char 0)''
            ''I cannot read this label'') \<and>
   extract_nutrition_info_gpt4o (scripted (Inl (ServiceError ''connection refused'')) (Inr []))
     (Some ''key'') None ''uploads/a.png'' = Inl (ServiceError ''connection refused'') \<and>
   upload_image (scripted (Inl (ServiceError ''connection refused'')) (Inr [])) (Some ''key'')
     None FSSAI_INR_BASELINE (Some ''label.png'') (Some (stored_oat_bar rating)) [] =
     ((500, UploadRaised (ServiceError ''connection refused'')), Some (stored_oat_bar rating),
      [Extraction ''uploads/20260101_120000_label.png''])"
proof -
  let ?a = "scripted (Inr ''I cannot read this label'') (Inr [])"
  let ?b = "scripted (Inl (ServiceError ''connection refused'')) (Inr [])"
  note t = extraction_parse_failure_is_value
  have h1: "vision_model ?a ''key'' ''uploads/a.png'' = Inr ''I cannot read this label'' \<and>
      json_loads ?a (json_payload ''I cannot read this label'') =
        Inl (JSONDecodeError ''Expecting value: line 1 column 1 (char 0)'')"
    by code_simp
  have h2: "vision_model ?b ''key'' ''uploads/a.png'' = Inl (ServiceError ''connection refused'')"
    by code_simp
  have h3: "''label.png'' \<noteq> [] \<and> allowed_file ''label.png'' ALLOWED_EXTENSIONS \<and>
      save_upload ?b ''label.png'' =
        Inr (''uploads/20260101_120000_label.png'', ''20260101_120000_label.png'') \<and>
      vision_model ?b ''key'' ''uploads/20260101_120000_label.png'' =
        Inl (ServiceError ''connection refused'')"
    by code_simp
  from t [THEN conjunct1, rule_format, OF h1, of None]
  have c1: "extract_nutrition_info_gpt4o ?a (Some ''key'') None ''uploads/a.png'' =
     Inr (ExtractionFailed ''Failed to parse JSON: Expecting value: line 1 column 1 (char 0)''
            ''I cannot read this label'')"
    by simp
  from t [THEN conjunct2, THEN conjunct1, rule_format, OF h2, of None]
  have c2: "extract_nutrition_info_gpt4o ?b (Some ''key'') None ''uploads/a.png'' =
     Inl (ServiceError ''connection refused'')"
    by simp
  from t [THEN conjunct2, THEN conjunct2, rule_format, OF h3,
      of None FSSAI_INR_BASELINE "Some (stored_oat_bar rating)" "[]"]
  have c3: "upload_image ?b (Some ''key'') None FSSAI_INR_BASELINE (Some ''label.png'')
       (Some (stored_oat_bar rating)) [] =
     ((500, UploadRaised (ServiceError ''connection refused'')), Some (stored_oat_bar rating),
      [Extraction ''uploads/20260101_120000_label.png''])"
    by simp
  from c1 c2 c3 show ?thesis by simp
qed

text \<open>
  The other exceptions of \<^verbatim>\<open>json.loads\<close> are not caught by line 146 and leave the stage.
\<close>

lemma other_decoder_exception_escapes:
  assumes "vision_model sv key path = Inr result_text"
    and "json_loads sv (json_payload result_text) = Inl e"
    and "\<forall>msg. e \<noteq> JSONDecodeError msg"
  shows "extract_nutrition_info_gpt4o sv (Some key) env_key path = Inl e"
  using assms by (cases e) (simp_all add: extract_nutrition_info_gpt4o_def and_then_def)

text \<open>
  The claim as written has a transport error come back as a failure value tagged as a
  service failure. The extraction step raises it instead.
\<close>

theorem service_error_escapes_counterexample:
  "extract_nutrition_step (scripted (Inl (ServiceError ''connection refused'')) (Inr []))
     (Some ''key'') None ''uploads/a.png'' [] =
     (Inl (ServiceError ''connection refused''), [Extraction ''uploads/a.png''])"
  by code_simp

subsection \<open>The rating stage\<close>

lemma first_occurrence:
  assumes "c \<in> set s"
  shows "\<exists>pre rest. s = pre @ c # rest \<and> c \<notin> set pre \<and> dropWhile (\<lambda>x. x \<noteq> c) s = c # rest"
proof -
  let ?tw = "takeWhile (\<lambda>x. x \<noteq> c) s"
  let ?d = "dropWhile (\<lambda>x. x \<noteq> c) s"
  from assms have ne: "?d \<noteq> []" by (simp add: dropWhile_eq_Nil_conv)
  then have "hd ?d = c" using hd_dropWhile [of "\<lambda>x. x \<noteq> c" s] by auto
  with ne have d: "?d = c # tl ?d" by (cases ?d) auto
  have "s = ?tw @ ?d" by simp
  then have "s = ?tw @ c # tl ?d" using d by simp
  moreover have "c \<notin> set ?tw" using set_takeWhileD [of c "\<lambda>x. x \<noteq> c" s] by auto
  ultimately show ?thesis using d by blast
qed

lemma json_match_span:
  "json_match s = Some m \<longleftrightarrow>
     (\<exists>pre mid post. s = pre @ CHR ''{'' # mid @ CHR ''}'' # post \<and>
        CHR ''{'' \<notin> set pre \<and> CHR ''}'' \<notin> set post \<and> m = CHR ''{'' # mid @ [CHR ''}''])"
proof
  assume a: "json_match s = Some m"
  let ?t = "dropWhile (\<lambda>c. c \<noteq> CHR ''{'') s"
  let ?r = "dropWhile (\<lambda>c. c \<noteq> CHR ''}'') (rev (tl ?t))"
  from a have t: "?t \<noteq> []" and r: "?r \<noteq> []" and m: "m = CHR ''{'' # rev ?r"
    by (auto simp: json_match_def Let_def split: if_splits)
  from t have "CHR ''{'' \<in> set s" by (auto simp: dropWhile_eq_Nil_conv)
  from first_occurrence [OF this] obtain pre u where
    s: "s = pre @ CHR ''{'' # u" and pre: "CHR ''{'' \<notin> set pre" and tu: "?t = CHR ''{'' # u"
    by blast
  from r tu have "CHR ''}'' \<in> set (rev u)" by (auto simp: dropWhile_eq_Nil_conv)
  from first_occurrence [OF this] obtain tw rest where
    u: "rev u = tw @ CHR ''}'' # rest" and tw: "CHR ''}'' \<notin> set tw"
    and ru: "dropWhile (\<lambda>c. c \<noteq> CHR ''}'') (rev u) = CHR ''}'' # rest"
    by blast
  from u have "rev (rev u) = rev (tw @ CHR ''}'' # rest)" by simp
  then have u': "u = rev rest @ CHR ''}'' # rev tw" by simp
  have "m = CHR ''{'' # rev rest @ [CHR ''}'']" using m tu ru by simp
  with s u' pre tw show "\<exists>pre mid post. s = pre @ CHR ''{'' # mid @ CHR ''}'' # post \<and>
        CHR ''{'' \<notin> set pre \<and> CHR ''}'' \<notin> set post \<and> m = CHR ''{'' # mid @ [CHR ''}'']"
    by (intro exI [of _ pre] exI [of _ "rev rest"] exI [of _ "rev tw"]) simp
next
  assume "\<exists>pre mid post. s = pre @ CHR ''{'' # mid @ CHR ''}'' # post \<and>
        CHR ''{'' \<notin> set pre \<and> CHR ''}'' \<notin> set post \<and> m = CHR ''{'' # mid @ [CHR ''}'']"
  then obtain pre mid post where
    s: "s = pre @ CHR ''{'' # mid @ CHR ''}'' # post" and
    pre: "CHR ''{'' \<notin> set pre" and post: "CHR ''}'' \<notin> set post" and
    m: "m = CHR ''{'' # mid @ [CHR ''}'']" by blast
  have t: "dropWhile (\<lambda>c. c \<noteq> CHR ''{'') s = CHR ''{'' # mid @ CHR ''}'' # post"
    unfolding s using pre by (subst dropWhile_append2) auto
  have "rev (mid @ CHR ''}'' # post) = rev post @ CHR ''}'' # rev mid" by simp
  then have r: "dropWhile (\<lambda>c. c \<noteq> CHR ''}'') (rev (mid @ CHR ''}'' # post)) = CHR ''}'' # rev mid"
    using post by (simp only:) (subst dropWhile_append2, auto)
  show "json_match s = Some m"
    unfolding json_match_def t using r m by simp
qed

lemma json_match_none:
  "json_match s = None \<longleftrightarrow> \<not> (\<exists>pre mid post. s = pre @ CHR ''{'' # mid @ CHR ''}'' # post)"
proof
  assume a: "json_match s = None"
  show "\<not> (\<exists>pre mid post. s = pre @ CHR ''{'' # mid @ CHR ''}'' # post)"
  proof
    assume "\<exists>pre mid post. s = pre @ CHR ''{'' # mid @ CHR ''}'' # post"
    then obtain pre mid post where s: "s = pre @ CHR ''{'' # mid @ CHR ''}'' # post" by blast
    then have "CHR ''{'' \<in> set s" by simp
    from first_occurrence [OF this] obtain p u where
      pu: "s = p @ CHR ''{'' # u" and p: "CHR ''{'' \<notin> set p"
      and t: "dropWhile (\<lambda>c. c \<noteq> CHR ''{'') s = CHR ''{'' # u" by blast
    have "CHR ''}'' \<in> set u"
    proof -
      from s pu have "p @ CHR ''{'' # u = pre @ CHR ''{'' # mid @ CHR ''}'' # post" by simp
      then obtain us where
        "(p = pre @ us \<and> us @ CHR ''{'' # u = CHR ''{'' # mid @ CHR ''}'' # post) \<or>
         (p @ us = pre \<and> CHR ''{'' # u = us @ CHR ''{'' # mid @ CHR ''}'' # post)"
        by (auto simp: append_eq_append_conv2)
      then show ?thesis
      proof
        assume c: "p = pre @ us \<and> us @ CHR ''{'' # u = CHR ''{'' # mid @ CHR ''}'' # post"
        show ?thesis
        proof (cases us)
          case Nil
          with c show ?thesis by simp
        next
          case (Cons x xs)
          with c have "x = CHR ''{''" by simp
          with c Cons p show ?thesis by simp
        qed
      next
        assume c: "p @ us = pre \<and> CHR ''{'' # u = us @ CHR ''{'' # mid @ CHR ''}'' # post"
        show ?thesis
        proof (cases us)
          case Nil
          with c show ?thesis by simp
        next
          case (Cons x xs)
          with c have "u = xs @ CHR ''{'' # mid @ CHR ''}'' # post" by simp
          then show ?thesis by simp
        qed
      qed
    qed
    with a t show False
      by (auto simp: json_match_def dropWhile_eq_Nil_conv split: if_splits)
  qed
next
  assume n: "\<not> (\<exists>pre mid post. s = pre @ CHR ''{'' # mid @ CHR ''}'' # post)"
  show "json_match s = None"
  proof (cases "json_match s")
    case None
    then show ?thesis .
  next
    case (Some m)
    then obtain pre mid post where "s = pre @ CHR ''{'' # mid @ CHR ''}'' # post"
      unfolding json_match_span by blast
    with n show ?thesis by blast
  qed
qed

text \<open>
  C3, as the code has it. Let the prompt be built and the reasoning model reply with
  \<open>reply\<close>. The text that is parsed is the one from the first opening brace of the reply
  to the last closing brace after it. When it parses, its value is the result of
  \<^verbatim>\<open>calculate_inr_score\<close>, and the rating step returns a success value holding it. When
  the reply has no opening brace with a closing brace after it, the rating step returns
  the failure value \<^verbatim>\<open>{'success': False, 'error': 'INR score calculation failed'}\<close> and
  raises nothing.
\<close>

theorem rating_reply_span:
  assumes "rating_prompt pd an bl = Inr prompt" and "reasoning_model sv prompt = Inr reply"
  shows "(json_match reply = Some m \<longleftrightarrow>
            (\<exists>pre mid post. reply = pre @ CHR ''{'' # mid @ CHR ''}'' # post \<and>
               CHR ''{'' \<notin> set pre \<and> CHR ''}'' \<notin> set post \<and>
               m = CHR ''{'' # mid @ [CHR ''}''])) \<and>
         (json_match reply = Some m \<and> json_loads sv m = Inr v \<longrightarrow>
            calculate_inr_score sv pd an bl = Inr v) \<and>
         (json_match reply = Some m \<and> json_loads sv m = Inr v \<and> v \<noteq> PNone \<longrightarrow>
            calculate_inr_step sv bl (Analysed path pd an) calls =
              (Inr (Rated path pd an v), calls @ [Rating])) \<and>
         (\<not> (\<exists>pre mid post. reply = pre @ CHR ''{'' # mid @ CHR ''}'' # post) \<longrightarrow>
            calculate_inr_score sv pd an bl = Inr PNone \<and>
            calculate_inr_step sv bl (Analysed path pd an) calls =
              (Inr (StepFailure ''INR score calculation failed'' None path), calls @ [Rating]))"
proof (intro conjI impI)
  show "json_match reply = Some m \<longleftrightarrow>
            (\<exists>pre mid post. reply = pre @ CHR ''{'' # mid @ CHR ''}'' # post \<and>
               CHR ''{'' \<notin> set pre \<and> CHR ''}'' \<notin> set post \<and>
               m = CHR ''{'' # mid @ [CHR ''}''])"
    by (rule json_match_span)
next
  assume "json_match reply = Some m \<and> json_loads sv m = Inr v"
  then show "calculate_inr_score sv pd an bl = Inr v"
    using assms by (simp add: calculate_inr_score_def and_then_def)
next
  assume "json_match reply = Some m \<and> json_loads sv m = Inr v \<and> v \<noteq> PNone"
  then show "calculate_inr_step sv bl (Analysed path pd an) calls =
              (Inr (Rated path pd an v), calls @ [Rating])"
    using assms by (simp add: calculate_inr_score_def and_then_def)
next
  assume "\<not> (\<exists>pre mid post. reply = pre @ CHR ''{'' # mid @ CHR ''}'' # post)"
  then have n: "json_match reply = None" by (simp add: json_match_none)
  then show s: "calculate_inr_score sv pd an bl = Inr PNone"
    using assms by (simp add: calculate_inr_score_def and_then_def)
  then show "calculate_inr_step sv bl (Analysed path pd an) calls =
              (Inr (StepFailure ''INR score calculation failed'' None path), calls @ [Rating])"
    by simp
qed

theorem rating_reply_span_witness:
  "calculate_inr_step (scripted (Inr []) (Inr ''I could not compute a score.''))
     FSSAI_INR_BASELINE (Analysed ''uploads/a.png'' oat_bar oat_bar_analysis) [] =
     (Inr (StepFailure ''INR score calculation failed'' None ''uploads/a.png''), [Rating]) \<and>
   calculate_inr_step (scripted (Inr []) (Inr rating_reply))
     FSSAI_INR_BASELINE (Analysed ''uploads/a.png'' oat_bar oat_bar_analysis) [] =
     (Inr (Rated ''uploads/a.png'' oat_bar oat_bar_analysis rating), [Rating]) \<and>
   calculate_inr_score (scripted (Inr []) (Inr rating_reply)) oat_bar oat_bar_analysis
     FSSAI_INR_BASELINE = Inr rating"
proof -
  let ?prompt = "[Plain (PStr ''Solid''), Plain (PInt 450), Plain (PInt 25),
      Plain (PInt 8), Plain (PInt 200), Plain (PInt 6), Plain (PInt 2),
      PlainInt 2000, PlainInt 50, PlainInt 20, PlainInt 2000, PlainInt 50,
      PlainInt 25, OneDecimal (FloatN (Fin (45 / 2))),
      OneDecimal (FloatN (Fin 50)), OneDecimal (FloatN (Fin 40)),
      OneDecimal (FloatN (Fin 10)), OneDecimal (FloatN (Fin 12))]"
  let ?a = "scripted (Inr []) (Inr ''I could not compute a score.'')"
  let ?b = "scripted (Inr []) (Inr rating_reply)"
  have p: "rating_prompt oat_bar oat_bar_analysis FSSAI_INR_BASELINE = Inr ?prompt"
    by code_simp
  have ra: "reasoning_model ?a ?prompt = Inr ''I could not compute a score.''"
    by (simp add: scripted_def)
  have rb: "reasoning_model ?b ?prompt = Inr rating_reply"
    by (simp add: scripted_def)
  have na: "\<not> (\<exists>pre mid post.
      ''I could not compute a score.'' = pre @ CHR ''{'' # mid @ CHR ''}'' # post)"
  proof
    assume "\<exists>pre mid post.
      ''I could not compute a score.'' = pre @ CHR ''{'' # mid @ CHR ''}'' # post"
    then obtain pre mid post where
      "''I could not compute a score.'' = pre @ CHR ''{'' # mid @ CHR ''}'' # post" by blast
    then have "CHR ''{'' \<in> set ''I could not compute a score.''"
      by (metis in_set_conv_decomp)
    then show False by simp
  qed
  have mb: "json_match rating_reply = Some rating_reply \<and>
      json_loads ?b rating_reply = Inr rating \<and> rating \<noteq> PNone"
    by code_simp
  from rating_reply_span [OF p ra, of _ _ "''uploads/a.png''" "[]"] na
  have "calculate_inr_step ?a FSSAI_INR_BASELINE
          (Analysed ''uploads/a.png'' oat_bar oat_bar_analysis) [] =
        (Inr (StepFailure ''INR score calculation failed'' None ''uploads/a.png''), [Rating])"
    by simp
  moreover
  from rating_reply_span [OF p rb, of rating_reply rating "''uploads/a.png''" "[]"] mb
  have "calculate_inr_step ?b FSSAI_INR_BASELINE
          (Analysed ''uploads/a.png'' oat_bar oat_bar_analysis) [] =
        (Inr (Rated ''uploads/a.png'' oat_bar oat_bar_analysis rating), [Rating])"
    by simp
  moreover
  from rating_reply_span [OF p rb, of rating_reply rating] mb
  have "calculate_inr_score ?b oat_bar oat_bar_analysis FSSAI_INR_BASELINE = Inr rating"
    by simp
  ultimately show ?thesis by simp
qed

text \<open>
  The claim as written has the first balanced object parsed and no exception escape.
  For the reply \<^verbatim>\<open>{} and {}\<close> the first balanced object is \<^verbatim>\<open>{}\<close>, while the code
  takes the whole reply, and the \<^verbatim>\<open>JSONDecodeError\<close> of \<^verbatim>\<open>json.loads\<close> leaves the
  rating step.
\<close>

theorem greedy_span_counterexample:
  "json_match ''{} and {}'' = Some ''{} and {}'' \<and>
   first_balanced_object ''{} and {}'' = Some ''{}'' \<and>
   calculate_inr_step (scripted (Inr []) (Inr ''{} and {}'')) FSSAI_INR_BASELINE
     (Analysed ''uploads/a.png'' oat_bar oat_bar_analysis) [] =
     (Inl (JSONDecodeError ''Extra data: line 1 column 4 (char 3)''), [Rating])"
  by code_simp

text \<open>
  C5, as the code has it. Nothing checks the score range or the grade band: every
  result the rating returns, other than \<^verbatim>\<open>None\<close>, is passed on unchanged in a success
  value, and the upload handler answers 200 with it and stores it in the session.
\<close>

theorem rating_result_passes_unchecked:
  "(calculate_inr_score sv pd an bl = Inr r \<and> r \<noteq> PNone \<longrightarrow>
      calculate_inr_step sv bl (Analysed path pd an) calls =
        (Inr (Rated path pd an r), calls @ [Rating])) \<and>
   (uploaded = Some name \<and> name \<noteq> [] \<and> allowed_file name ALLOWED_EXTENSIONS \<and>
    save_upload sv name = Inr (filepath, stamped) \<and>
    nutrition_analysis_chain sv api_key env_key bl filepath calls =
      (Inr (Rated path pd an r), calls') \<longrightarrow>
      upload_image sv api_key env_key bl uploaded session calls =
        ((200, UploadSuccess pd an r stamped),
         Some \<lparr>product_data = pd, analysis = an, inr_result = r, image_path = filepath\<rparr>,
         calls'))"
  by (simp add: upload_image_def)

theorem rating_result_passes_unchecked_witness:
  "calculate_inr_step (scripted (Inr []) (Inr rating_reply)) FSSAI_INR_BASELINE
     (Analysed ''uploads/a.png'' oat_bar oat_bar_analysis) [] =
     (Inr (Rated ''uploads/a.png'' oat_bar oat_bar_analysis rating), [Rating]) \<and>
   upload_image (scripted (Inr oat_bar_reply) (Inr rating_reply)) (Some ''key'') None
     FSSAI_INR_BASELINE (Some ''label.png'') None [] =
     ((200, UploadSuccess oat_bar oat_bar_analysis rating ''20260101_120000_label.png''),
      Some (stored_oat_bar rating),
      [Extraction ''uploads/20260101_120000_label.png'', Normalization, Rating])"
proof -
  let ?a = "scripted (Inr []) (Inr rating_reply)"
  let ?b = "scripted (Inr oat_bar_reply) (Inr rating_reply)"
  have h1: "calculate_inr_score ?a oat_bar oat_bar_analysis FSSAI_INR_BASELINE = Inr rating \<and>
      rating \<noteq> PNone"
    by code_simp
  have h2: "Some ''label.png'' = Some ''label.png'' \<and> ''label.png'' \<noteq> [] \<and>
      allowed_file ''label.png'' ALLOWED_EXTENSIONS \<and>
      save_upload ?b ''label.png'' =
        Inr (''uploads/20260101_120000_label.png'', ''20260101_120000_label.png'') \<and>
      nutrition_analysis_chain ?b (Some ''key'') None FSSAI_INR_BASELINE
        ''uploads/20260101_120000_label.png'' [] =
        (Inr (Rated ''uploads/20260101_120000_label.png'' oat_bar oat_bar_analysis rating),
         [Extraction ''uploads/20260101_120000_label.png'', Normalization, Rating])"
    by code_simp
  note t = rating_result_passes_unchecked
  from t [THEN conjunct1, rule_format, OF h1, of "''uploads/a.png''" "[]"]
  have c1: "calculate_inr_step ?a FSSAI_INR_BASELINE
     (Analysed ''uploads/a.png'' oat_bar oat_bar_analysis) [] =
     (Inr (Rated ''uploads/a.png'' oat_bar oat_bar_analysis rating), [Rating])"
    by simp
  from t [THEN conjunct2, rule_format, OF h2, of None]
  have c2: "upload_image ?b (Some ''key'') None FSSAI_INR_BASELINE (Some ''label.png'') None [] =
     ((200, UploadSuccess oat_bar oat_bar_analysis rating ''20260101_120000_label.png''),
      Some (stored_oat_bar rating),
      [Extraction ''uploads/20260101_120000_label.png'', Normalization, Rating])"
    by (simp add: stored_oat_bar_def)
  from c1 c2 show ?thesis by simp
qed

text \<open>
  The claim as written has a result with a score outside 0 to 100, or a grade that does
  not match the score, flagged. A reply with score 150 and grade E ends up in the
  session as the rating of a successful upload.
\<close>

theorem unchecked_rating_counterexample:
  \<open>map_option inr_result (session_after_upload ''{"inr_score": 150, "grade": "E"}'') =
     Some (PDict [(''inr_score'', PInt 150), (''grade'', PStr ''E'')])\<close>
  by code_simp

subsection \<open>The upload handler and the session\<close>

text \<open>
  C9. An upload that is not answered with 200 leaves the stored product as it was; in
  particular one whose pipeline raises or returns a failure is answered with 500 and
  leaves it as it was. The stored product changes only when the pipeline returns a
  success value with product data, analysis and rating, and then the response is the
  200 one.
\<close>

theorem failed_upload_keeps_session:
  "(fst (fst (upload_image sv api_key env_key bl uploaded session calls)) \<noteq> 200 \<longrightarrow>
      fst (snd (upload_image sv api_key env_key bl uploaded session calls)) = session) \<and>
   (uploaded = Some name \<and> name \<noteq> [] \<and> allowed_file name ALLOWED_EXTENSIONS \<and>
    save_upload sv name = Inr (filepath, stamped) \<and>
    (nutrition_analysis_chain sv api_key env_key bl filepath calls = (Inl e, calls') \<or>
     nutrition_analysis_chain sv api_key env_key bl filepath calls =
       (Inr (StepFailure error details path), calls')) \<longrightarrow>
      fst (fst (upload_image sv api_key env_key bl uploaded session calls)) = 500 \<and>
      snd (upload_image sv api_key env_key bl uploaded session calls) = (session, calls')) \<and>
   (fst (snd (upload_image sv api_key env_key bl uploaded session calls)) \<noteq> session \<longrightarrow>
      (\<exists>name filepath stamped path pd an r calls'.
         uploaded = Some name \<and> save_upload sv name = Inr (filepath, stamped) \<and>
         nutrition_analysis_chain sv api_key env_key bl filepath calls =
           (Inr (Rated path pd an r), calls') \<and>
         upload_image sv api_key env_key bl uploaded session calls =
           ((200, UploadSuccess pd an r stamped),
            Some \<lparr>product_data = pd, analysis = an, inr_result = r, image_path = filepath\<rparr>,
            calls')))"
proof (intro conjI impI)
  assume "fst (fst (upload_image sv api_key env_key bl uploaded session calls)) \<noteq> 200"
  then show "fst (snd (upload_image sv api_key env_key bl uploaded session calls)) = session"
    by (auto simp: upload_image_def split: option.splits if_splits sum.splits prod.splits
        chain_value.splits)
next
  assume a: "uploaded = Some name \<and> name \<noteq> [] \<and> allowed_file name ALLOWED_EXTENSIONS \<and>
    save_upload sv name = Inr (filepath, stamped) \<and>
    (nutrition_analysis_chain sv api_key env_key bl filepath calls = (Inl e, calls') \<or>
     nutrition_analysis_chain sv api_key env_key bl filepath calls =
       (Inr (StepFailure error details path), calls'))"
  then show "fst (fst (upload_image sv api_key env_key bl uploaded session calls)) = 500"
    and "snd (upload_image sv api_key env_key bl uploaded session calls) = (session, calls')"
    by (auto simp: upload_image_def)
next
  assume "fst (snd (upload_image sv api_key env_key bl uploaded session calls)) \<noteq> session"
  then show "\<exists>name filepath stamped path pd an r calls'.
         uploaded = Some name \<and> save_upload sv name = Inr (filepath, stamped) \<and>
         nutrition_analysis_chain sv api_key env_key bl filepath calls =
           (Inr (Rated path pd an r), calls') \<and>
         upload_image sv api_key env_key bl uploaded session calls =
           ((200, UploadSuccess pd an r stamped),
            Some \<lparr>product_data = pd, analysis = an, inr_result = r, image_path = filepath\<rparr>,
            calls')"
    by (auto simp: upload_image_def split: option.splits if_splits sum.splits prod.splits
        chain_value.splits)
qed

theorem failed_upload_keeps_session_witness:
  "upload_image (scripted (Inr ''I cannot read this label'') (Inr [])) (Some ''key'') None
     FSSAI_INR_BASELINE (Some ''second.jpg'') (Some (stored_oat_bar rating)) [] =
     ((500, UploadFailed ''Nutrition extraction failed''
              (Some ''Failed to parse JSON: Expecting value: line 1 column 1 (char 0)'')),
      Some (stored_oat_bar rating),
      [Extraction ''uploads/20260101_120000_second.jpg'']) \<and>
   (\<exists>name filepath stamped path calls'.
      Some ''label.png'' = Some name \<and>
      save_upload (scripted (Inr oat_bar_reply) (Inr rating_reply)) name =
        Inr (filepath, stamped) \<and>
      nutrition_analysis_chain (scripted (Inr oat_bar_reply) (Inr rating_reply)) (Some ''key'')
        None FSSAI_INR_BASELINE filepath [] =
        (Inr (Rated path oat_bar oat_bar_analysis rating), calls'))"
proof -
  let ?a = "scripted (Inr ''I cannot read this label'') (Inr [])"
  let ?b = "scripted (Inr oat_bar_reply) (Inr rating_reply)"
  let ?u = "upload_image ?a (Some ''key'') None FSSAI_INR_BASELINE (Some ''second.jpg'')
              (Some (stored_oat_bar rating)) []"
  let ?v = "upload_image ?b (Some ''key'') None FSSAI_INR_BASELINE (Some ''label.png'') None []"
  note t = failed_upload_keeps_session
  have body: "fst ?u = (500, UploadFailed ''Nutrition extraction failed''
              (Some ''Failed to parse JSON: Expecting value: line 1 column 1 (char 0)''))"
    by code_simp
  then have h1: "fst (fst ?u) \<noteq> 200" by simp
  have h2: "Some ''second.jpg'' = Some ''second.jpg'' \<and> ''second.jpg'' \<noteq> [] \<and>
      allowed_file ''second.jpg'' ALLOWED_EXTENSIONS \<and>
      save_upload ?a ''second.jpg'' =
        Inr (''uploads/20260101_120000_second.jpg'', ''20260101_120000_second.jpg'') \<and>
      (nutrition_analysis_chain ?a (Some ''key'') None FSSAI_INR_BASELINE
         ''uploads/20260101_120000_second.jpg'' [] =
         (Inl ValueError, [Extraction ''uploads/20260101_120000_second.jpg'']) \<or>
       nutrition_analysis_chain ?a (Some ''key'') None FSSAI_INR_BASELINE
         ''uploads/20260101_120000_second.jpg'' [] =
         (Inr (StepFailure ''Nutrition extraction failed''
                 (Some ''Failed to parse JSON: Expecting value: line 1 column 1 (char 0)'')
                 ''uploads/20260101_120000_second.jpg''),
          [Extraction ''uploads/20260101_120000_second.jpg'']))"
    by code_simp
  have v: "?v =
     ((200, UploadSuccess oat_bar oat_bar_analysis rating ''20260101_120000_label.png''),
      Some (stored_oat_bar rating),
      [Extraction ''uploads/20260101_120000_label.png'', Normalization, Rating])"
    by code_simp
  then have h3: "fst (snd ?v) \<noteq> None" by simp
  from t [THEN conjunct1, rule_format, OF h1]
  have c1: "fst (snd ?u) = Some (stored_oat_bar rating)" .
  from t [THEN conjunct2, THEN conjunct1, rule_format, OF h2]
  have c2: "snd ?u =
      (Some (stored_oat_bar rating), [Extraction ''uploads/20260101_120000_second.jpg''])"
    by simp
  from t [THEN conjunct2, THEN conjunct2, rule_format, OF h3] obtain name filepath stamped
      path pd an r calls' where
    c3: "Some ''label.png'' = Some name" "save_upload ?b name = Inr (filepath, stamped)"
      "nutrition_analysis_chain ?b (Some ''key'') None FSSAI_INR_BASELINE filepath [] =
         (Inr (Rated path pd an r), calls')"
      "?v = ((200, UploadSuccess pd an r stamped),
            Some \<lparr>product_data = pd, analysis = an, inr_result = r, image_path = filepath\<rparr>,
            calls')"
    by blast
  from c3(4) v have "pd = oat_bar" "an = oat_bar_analysis" "r = rating"
    by simp_all
  with c3 have "\<exists>name filepath stamped path calls'.
      Some ''label.png'' = Some name \<and> save_upload ?b name = Inr (filepath, stamped) \<and>
      nutrition_analysis_chain ?b (Some ''key'') None FSSAI_INR_BASELINE filepath [] =
        (Inr (Rated path oat_bar oat_bar_analysis rating), calls')"
    by blast
  moreover from body c2 have "?u =
     ((500, UploadFailed ''Nutrition extraction failed''
              (Some ''Failed to parse JSON: Expecting value: line 1 column 1 (char 0)'')),
      Some (stored_oat_bar rating),
      [Extraction ''uploads/20260101_120000_second.jpg''])"
    by (simp add: prod_eq_iff)
  ultimately show ?thesis by blast
qed

subsection \<open>The chat handler\<close>

lemma product_context_fields:
  assumes "product_context cp msg = Inr prompt"
  shows "\<exists>name brand ptype score score_text grade info vals warnings claims wt ct.
      py_get (product_data cp) ''product_name'' (PStr ''Unknown'') = Inr name \<and>
      py_get (product_data cp) ''brand'' (PStr ''Unknown'') = Inr brand \<and>
      py_get (product_data cp) ''product_type'' (PStr ''Solid'') = Inr ptype \<and>
      py_getitem (inr_result cp) ''inr_score'' = Inr score \<and>
      format_1f score = Inr score_text \<and>
      py_getitem (inr_result cp) ''grade'' = Inr grade \<and>
      py_getitem (product_data cp) ''nutritional_info_per_100g'' = Inr info \<and>
      each_in_order (py_getitem info) nutrients = Inr vals \<and>
      py_get (inr_result cp) ''health_warnings'' (PList []) = Inr warnings \<and>
      py_join warnings = Inr wt \<and>
      py_get (inr_result cp) ''positive_claims'' (PList []) = Inr claims \<and>
      py_join claims = Inr ct \<and>
      prompt = [Plain name, Plain brand, Plain ptype, score_text, Plain grade] @ map Plain vals @
               [Text (or_none wt), Text (or_none ct), Text msg]"
  using assms unfolding product_context_def and_then_def
  by (auto split: sum.splits)

text \<open>
  C7, as the code has it. Take a chat request with a non-empty message. Without a stored
  product the handler makes exactly one call, the retrieval with the message. With a
  stored product it makes no retrieval call; when the prompt can be built from the
  stored product, it makes exactly one call, the generation with that prompt, and the
  prompt holds the product's name, brand and type, the score to one decimal, the grade,
  the five nutrient values, the joined warnings and claims, and the message. When
  building the prompt raises, it makes no call and answers 500 with the exception.
\<close>

theorem chat_mode_by_session:
  assumes "msg \<noteq> []"
  shows "snd (chat sv (Some msg) None calls) = calls @ [Retrieval msg] \<and>
    (\<forall>q. Retrieval q \<notin> set (drop (length calls) (snd (chat sv (Some msg) (Some cp) calls)))) \<and>
    (product_context cp msg = Inr prompt \<longrightarrow>
       snd (chat sv (Some msg) (Some cp) calls) = calls @ [Generation prompt] \<and>
       (\<exists>name brand ptype score score_text grade info vals warnings claims wt ct.
          py_get (product_data cp) ''product_name'' (PStr ''Unknown'') = Inr name \<and>
          py_get (product_data cp) ''brand'' (PStr ''Unknown'') = Inr brand \<and>
          py_get (product_data cp) ''product_type'' (PStr ''Solid'') = Inr ptype \<and>
          py_getitem (inr_result cp) ''inr_score'' = Inr score \<and>
          format_1f score = Inr score_text \<and>
          py_getitem (inr_result cp) ''grade'' = Inr grade \<and>
          py_getitem (product_data cp) ''nutritional_info_per_100g'' = Inr info \<and>
          each_in_order (py_getitem info) nutrients = Inr vals \<and>
          py_get (inr_result cp) ''health_warnings'' (PList []) = Inr warnings \<and>
          py_join warnings = Inr wt \<and>
          py_get (inr_result cp) ''positive_claims'' (PList []) = Inr claims \<and>
          py_join claims = Inr ct \<and>
          prompt = [Plain name, Plain brand, Plain ptype, score_text, Plain grade] @
                   map Plain vals @
                   [Text (or_none wt), Text (or_none ct), Text msg])) \<and>
    (product_context cp msg = Inl e \<longrightarrow>
       chat sv (Some msg) (Some cp) calls = ((500, ChatRaised e), calls))"
proof (intro conjI allI impI)
  show "snd (chat sv (Some msg) None calls) = calls @ [Retrieval msg]"
    using assms by (simp add: chat_def split: sum.splits)
next
  fix q
  show "Retrieval q \<notin> set (drop (length calls) (snd (chat sv (Some msg) (Some cp) calls)))"
    using assms by (simp add: chat_def split: sum.splits)
next
  assume p: "product_context cp msg = Inr prompt"
  then show "snd (chat sv (Some msg) (Some cp) calls) = calls @ [Generation prompt]"
    using assms by (simp add: chat_def split: sum.splits)
  from product_context_fields [OF p]
  show "\<exists>name brand ptype score score_text grade info vals warnings claims wt ct.
          py_get (product_data cp) ''product_name'' (PStr ''Unknown'') = Inr name \<and>
          py_get (product_data cp) ''brand'' (PStr ''Unknown'') = Inr brand \<and>
          py_get (product_data cp) ''product_type'' (PStr ''Solid'') = Inr ptype \<and>
          py_getitem (inr_result cp) ''inr_score'' = Inr score \<and>
          format_1f score = Inr score_text \<and>
          py_getitem (inr_result cp) ''grade'' = Inr grade \<and>
          py_getitem (product_data cp) ''nutritional_info_per_100g'' = Inr info \<and>
          each_in_order (py_getitem info) nutrients = Inr vals \<and>
          py_get (inr_result cp) ''health_warnings'' (PList []) = Inr warnings \<and>
          py_join warnings = Inr wt \<and>
          py_get (inr_result cp) ''positive_claims'' (PList []) = Inr claims \<and>
          py_join claims = Inr ct \<and>
          prompt = [Plain name, Plain brand, Plain ptype, score_text, Plain grade] @
                   map Plain vals @
                   [Text (or_none wt), Text (or_none ct), Text msg]" .
next
  assume "product_context cp msg = Inl e"
  then show "chat sv (Some msg) (Some cp) calls = ((500, ChatRaised e), calls)"
    using assms by (simp add: chat_def)
qed

theorem chat_mode_by_session_witness:
  "chat (scripted (Inr []) (Inr [])) (Some ''Is it healthy?'') None [] =
     ((200, ChatResponse ''retrieved answer''), [Retrieval ''Is it healthy?'']) \<and>
   snd (chat (scripted (Inr []) (Inr [])) (Some ''Is it healthy?'')
          (Some (stored_oat_bar rating)) []) =
     [Generation
        [Plain (PStr ''Oat Bar''), Plain (PStr ''Unknown''), Plain (PStr ''Solid''),
         OneDecimal (IntN 62), Plain (PStr ''B''), Plain (PInt 450), Plain (PInt 25),
         Plain (PInt 8), Plain (PInt 200), Plain (PInt 6), Text ''High sugar'', Text ''None'',
         Text ''Is it healthy?'']] \<and>
   chat (scripted (Inr []) (Inr [])) (Some ''Is it healthy?'')
     (Some (stored_oat_bar (PDict [(''grade'', PStr ''B'')]))) [] =
     ((500, ChatRaised (KeyError ''inr_score'')), [])"
proof -
  have m: "''Is it healthy?'' \<noteq> []" by simp
  have f: "product_context (stored_oat_bar (PDict [(''grade'', PStr ''B'')])) ''Is it healthy?'' =
     Inl (KeyError ''inr_score'')"
    by code_simp
  from chat_mode_by_session [OF m, THEN conjunct2, THEN conjunct2, THEN conjunct2, rule_format,
      OF f, of "scripted (Inr []) (Inr [])" "[]"]
  have c: "chat (scripted (Inr []) (Inr [])) (Some ''Is it healthy?'')
     (Some (stored_oat_bar (PDict [(''grade'', PStr ''B'')]))) [] =
     ((500, ChatRaised (KeyError ''inr_score'')), [])" .
  have p: "product_context (stored_oat_bar rating) ''Is it healthy?'' =
     Inr [Plain (PStr ''Oat Bar''), Plain (PStr ''Unknown''), Plain (PStr ''Solid''),
         OneDecimal (IntN 62), Plain (PStr ''B''), Plain (PInt 450), Plain (PInt 25),
         Plain (PInt 8), Plain (PInt 200), Plain (PInt 6), Text ''High sugar'', Text ''None'',
         Text ''Is it healthy?'']"
    by code_simp
  have r: "chat (scripted (Inr []) (Inr [])) (Some ''Is it healthy?'') None [] =
     ((200, ChatResponse ''retrieved answer''), [Retrieval ''Is it healthy?''])"
    by code_simp
  from chat_mode_by_session [OF m, of "scripted (Inr []) (Inr [])" "[]" "stored_oat_bar rating"] p
  have "snd (chat (scripted (Inr []) (Inr [])) (Some ''Is it healthy?'')
          (Some (stored_oat_bar rating)) []) =
     [Generation
        [Plain (PStr ''Oat Bar''), Plain (PStr ''Unknown''), Plain (PStr ''Solid''),
         OneDecimal (IntN 62), Plain (PStr ''B''), Plain (PInt 450), Plain (PInt 25),
         Plain (PInt 8), Plain (PInt 200), Plain (PInt 6), Text ''High sugar'', Text ''None'',
         Text ''Is it healthy?'']]"
    by simp
  with r c show ?thesis by simp
qed

text \<open>
  The claim as written has a generation call for every stored product. When the
  reasoning model replied \<^verbatim>\<open>{}\<close>, the upload succeeds and stores a rating without
  \<^verbatim>\<open>inr_score\<close>; building the prompt then raises \<^verbatim>\<open>KeyError\<close>, and the handler
  answers 500 without any call.
\<close>

theorem stored_product_without_score_counterexample:
  "session_after_upload ''{}'' = Some (stored_oat_bar (PDict [])) \<and>
   chat (scripted (Inr []) (Inr [])) (Some ''Is it healthy?'') (session_after_upload ''{}'') [] =
     ((500, ChatRaised (KeyError ''inr_score'')), [])"
  by code_simp

subsection \<open>The file-type check\<close>

lemma rsplit1_parts:
  assumes "sep \<in> set s"
  shows "\<exists>pre ext. s = pre @ sep # ext \<and> sep \<notin> set ext \<and> rsplit1 sep s = [pre, ext]"
proof -
  let ?r = "rev s"
  let ?ext = "rev (takeWhile (\<lambda>c. c \<noteq> sep) ?r)"
  let ?d = "dropWhile (\<lambda>c. c \<noteq> sep) ?r"
  from assms have "sep \<in> set ?r" by simp
  then have ne: "?d \<noteq> []" by (simp add: dropWhile_eq_Nil_conv)
  then have hd: "hd ?d = sep" using hd_dropWhile [of "\<lambda>c. c \<noteq> sep" ?r] by auto
  from ne hd have d: "?d = sep # tl ?d" by (cases ?d) auto
  have "?r = takeWhile (\<lambda>c. c \<noteq> sep) ?r @ ?d" by simp
  then have "?r = takeWhile (\<lambda>c. c \<noteq> sep) ?r @ sep # tl ?d" using d by simp
  then have "rev ?r = rev (takeWhile (\<lambda>c. c \<noteq> sep) ?r @ sep # tl ?d)" by simp
  then have s: "s = rev (tl ?d) @ sep # ?ext" by simp
  have "sep \<notin> set ?ext" using set_takeWhileD [of sep "\<lambda>c. c \<noteq> sep" ?r] by auto
  with s assms show ?thesis unfolding rsplit1_def by (intro exI [of _ "rev (tl ?d)"] exI [of _ ?ext]) simp
qed

lemma rsplit1_unique:
  assumes "s = pre @ sep # ext" and "sep \<notin> set ext"
  shows "rsplit1 sep s = [pre, ext]"
proof -
  have r: "rev s = rev ext @ sep # rev pre" using assms(1) by simp
  have t: "takeWhile (\<lambda>c. c \<noteq> sep) (rev s) = rev ext"
    unfolding r using assms(2) by (subst takeWhile_append2) auto
  have d: "dropWhile (\<lambda>c. c \<noteq> sep) (rev s) = sep # rev pre"
    unfolding r using assms(2) by (subst dropWhile_append2) auto
  have "sep \<in> set s" using assms(1) by simp
  then show ?thesis unfolding rsplit1_def t d by simp
qed

lemma allowed_file_iff:
  "allowed_file filename ALLOWED_EXTENSIONS \<longleftrightarrow>
     (\<exists>pre ext. filename = pre @ CHR ''.'' # ext \<and> CHR ''.'' \<notin> set ext \<and>
        lower ext \<in> {''png'', ''jpg'', ''jpeg'', ''gif'', ''webp''})"
proof
  assume a: "allowed_file filename ALLOWED_EXTENSIONS"
  then have dot: "CHR ''.'' \<in> set filename" by (simp add: allowed_file_def)
  from rsplit1_parts [OF dot] obtain pre ext where
    p: "filename = pre @ CHR ''.'' # ext" "CHR ''.'' \<notin> set ext"
       "rsplit1 CHR ''.'' filename = [pre, ext]" by blast
  from a p(3) have "lower ext \<in> ALLOWED_EXTENSIONS" by (simp add: allowed_file_def)
  with p show "\<exists>pre ext. filename = pre @ CHR ''.'' # ext \<and> CHR ''.'' \<notin> set ext \<and>
        lower ext \<in> {''png'', ''jpg'', ''jpeg'', ''gif'', ''webp''}"
    unfolding ALLOWED_EXTENSIONS_def by blast
next
  assume "\<exists>pre ext. filename = pre @ CHR ''.'' # ext \<and> CHR ''.'' \<notin> set ext \<and>
        lower ext \<in> {''png'', ''jpg'', ''jpeg'', ''gif'', ''webp''}"
  then obtain pre ext where
    p: "filename = pre @ CHR ''.'' # ext" "CHR ''.'' \<notin> set ext"
       "lower ext \<in> {''png'', ''jpg'', ''jpeg'', ''gif'', ''webp''}" by blast
  have "rsplit1 CHR ''.'' filename = [pre, ext]" using rsplit1_unique [OF p(1) p(2)] .
  with p show "allowed_file filename ALLOWED_EXTENSIONS"
    by (simp add: allowed_file_def ALLOWED_EXTENSIONS_def)
qed

text \<open>
  C10. A filename passes the check exactly when it can be cut as \<open>pre . ext\<close> with no
  dot in \<open>ext\<close> (so \<open>ext\<close> is what follows the last dot) and \<open>ext\<close> lowercases to one of
  png, jpg, jpeg, gif, webp. So "label.PNG" passes and "a.png.exe" does not. A name
  without a dot does not pass, and the upload handler answers it with 400, leaving the
  session and the calls as they were.
\<close>

theorem file_type_check:
  "(allowed_file filename ALLOWED_EXTENSIONS \<longleftrightarrow>
      (\<exists>pre ext. filename = pre @ CHR ''.'' # ext \<and> CHR ''.'' \<notin> set ext \<and>
         lower ext \<in> {''png'', ''jpg'', ''jpeg'', ''gif'', ''webp''})) \<and>
   allowed_file ''label.PNG'' ALLOWED_EXTENSIONS \<and>
   \<not> allowed_file ''a.png.exe'' ALLOWED_EXTENSIONS \<and>
   (CHR ''.'' \<notin> set filename \<longrightarrow>
      \<not> allowed_file filename ALLOWED_EXTENSIONS \<and>
      fst (fst (upload_image sv api_key env_key bl (Some filename) session calls)) = 400 \<and>
      snd (upload_image sv api_key env_key bl (Some filename) session calls) = (session, calls))"
proof (intro conjI impI)
  show "allowed_file filename ALLOWED_EXTENSIONS \<longleftrightarrow>
      (\<exists>pre ext. filename = pre @ CHR ''.'' # ext \<and> CHR ''.'' \<notin> set ext \<and>
         lower ext \<in> {''png'', ''jpg'', ''jpeg'', ''gif'', ''webp''})"
    by (rule allowed_file_iff)
  show "allowed_file ''label.PNG'' ALLOWED_EXTENSIONS" by code_simp
  show "\<not> allowed_file ''a.png.exe'' ALLOWED_EXTENSIONS" by code_simp
next
  assume d: "CHR ''.'' \<notin> set filename"
  then show n: "\<not> allowed_file filename ALLOWED_EXTENSIONS" by (simp add: allowed_file_def)
  then show "fst (fst (upload_image sv api_key env_key bl (Some filename) session calls)) = 400"
    and "snd (upload_image sv api_key env_key bl (Some filename) session calls) = (session, calls)"
    by (simp_all add: upload_image_def)
qed

theorem file_type_check_witness:
  "upload_image (scripted (Inr []) (Inr [])) (Some ''key'') None FSSAI_INR_BASELINE
     (Some ''README'') None [] =
     ((400, UploadError ''Invalid file type. Please upload an image (PNG, JPG, JPEG, GIF, WEBP)''),
      None, [])"
proof -
  let ?u = "upload_image (scripted (Inr []) (Inr [])) (Some ''key'') None FSSAI_INR_BASELINE
     (Some ''README'') None []"
  have d: "CHR ''.'' \<notin> set ''README''" by simp
  from file_type_check [of "''README''"] d
  have "\<not> allowed_file ''README'' ALLOWED_EXTENSIONS" by blast
  then show ?thesis by (simp add: upload_image_def)
qed

end
